theory Spec2Isabelle
  imports Complex_Main
begin

section \<open>JavaScript string primitives used by the shell\<close>

text \<open>
  \<open>String.prototype.startsWith\<close>, \<open>String.prototype.endsWith\<close> and
  \<open>s.replace(/^www\./, '')\<close>, on strings as character lists. Host names are ASCII
  (the URL parser delivers them in punycode), so a character is one list element.
\<close>

definition startsWith :: "string \<Rightarrow> string \<Rightarrow> bool" where
  "startsWith s p = (take (length p) s = p)"

definition endsWith :: "string \<Rightarrow> string \<Rightarrow> bool" where
  "endsWith s p = (length p \<le> length s \<and> drop (length s - length p) s = p)"

definition stripWww :: "string \<Rightarrow> string" where
  "stripWww s = (if startsWith s ''www.'' then drop 4 s else s)"

section \<open>Navigation policy: \<open>shouldStartLoadWithRequest\<close> (App.tsx)\<close>

text \<open>
  \<open>config.webAppUrl\<close> and \<open>config.apiUrl\<close> of config.ts. Their values depend on the
  build (\<open>__DEV__\<close>), so the policy is modelled for an arbitrary configuration.
\<close>

record config =
  webAppUrl :: string
  apiUrl :: string

definition productionConfig :: config where
  "productionConfig = \<lparr>webAppUrl = ''https://trustbuild.uk'', apiUrl = ''https://api.trustbuild.uk''\<rparr>"

text \<open>
  The four allow conditions of the \<open>try\<close> block, in source order. \<open>requestDomain\<close>,
  \<open>appDomain\<close> and \<open>apiDomain\<close> are the host names with a leading \<open>www.\<close> removed; the
  localhost test reads \<open>requestUrl.hostname\<close> itself.
\<close>

definition isAppOrApiDomain :: "string \<Rightarrow> string \<Rightarrow> string \<Rightarrow> bool" where
  "isAppOrApiDomain requestDomain appDomain apiDomain =
     (requestDomain = appDomain \<or> endsWith requestDomain (CHR ''.'' # appDomain) \<or>
      requestDomain = apiDomain \<or> endsWith requestDomain (CHR ''.'' # apiDomain))"

definition isLocalDevelopment :: "string \<Rightarrow> bool" where
  "isLocalDevelopment hostname = (hostname = ''localhost'' \<or> hostname = ''127.0.0.1'')"

definition isStripeDomain :: "string \<Rightarrow> bool" where
  "isStripeDomain requestDomain =
     (requestDomain = ''js.stripe.com'' \<or> requestDomain = ''checkout.stripe.com'' \<or>
      endsWith requestDomain ''.stripe.com'' \<or> requestDomain = ''stripe.com'')"

definition isGoogleDomain :: "string \<Rightarrow> bool" where
  "isGoogleDomain requestDomain =
     (requestDomain = ''accounts.google.com'' \<or> endsWith requestDomain ''.google.com'')"

definition isPassthroughScheme :: "string \<Rightarrow> bool" where
  "isPassthroughScheme url =
     (startsWith url ''about:'' \<or> startsWith url ''blob:'' \<or> startsWith url ''data:'')"

definition isDeviceScheme :: "string \<Rightarrow> bool" where
  "isDeviceScheme url =
     (startsWith url ''tel:'' \<or> startsWith url ''mailto:'' \<or> startsWith url ''sms:'')"

definition isHttpUrl :: "string \<Rightarrow> bool" where
  "isHttpUrl url = (startsWith url ''http://'' \<or> startsWith url ''https://'')"

text \<open>
  The decision function. Its first argument stands for the platform's URL parser:
  \<open>urlHostname u\<close> is \<open>new URL(u).hostname\<close>, and \<open>None\<close> when \<open>new URL(u)\<close> throws.
  The result pairs the returned boolean with the calls of \<open>RNLinking.openURL\<close> made on
  the way: \<open>(True, [])\<close> loads the URL in the WebView, \<open>(False, [u])\<close> suppresses
  the load and hands \<open>u\<close> to the operating system.
  The three \<open>new URL\<close> calls sit in one \<open>try\<close> whose \<open>catch\<close> returns \<open>true\<close>.
\<close>

definition shouldStartLoadWithRequest ::
  "(string \<Rightarrow> string option) \<Rightarrow> config \<Rightarrow> string \<Rightarrow> bool \<times> string list" where
  "shouldStartLoadWithRequest urlHostname cfg url =
     (if isPassthroughScheme url then (True, [])
      else if isDeviceScheme url then (False, [url])
      else
        (case urlHostname url of
           None \<Rightarrow> (True, [])
         | Some requestHost \<Rightarrow>
        (case urlHostname (webAppUrl cfg) of
           None \<Rightarrow> (True, [])
         | Some appHost \<Rightarrow>
        (case urlHostname (apiUrl cfg) of
           None \<Rightarrow> (True, [])
         | Some apiHost \<Rightarrow>
             (let appDomain = stripWww appHost;
                  apiDomain = stripWww apiHost;
                  requestDomain = stripWww requestHost
              in if isAppOrApiDomain requestDomain appDomain apiDomain then (True, [])
                 else if isLocalDevelopment requestHost then (True, [])
                 else if isStripeDomain requestDomain then (True, [])
                 else if isGoogleDomain requestDomain then (True, [])
                 else if isHttpUrl url then (False, [url])
                 else (True, []))))))"

text \<open>
  A small URL reader used to run the policy on concrete inputs. It is not part of the
  application: on a lower-case \<open>http://\<close> or \<open>https://\<close> URL without user
  information it returns what \<open>new URL(u).hostname\<close> returns (the text up to the first
  \<open>/\<close>, \<open>:\<close>, \<open>?\<close> or \<open>#\<close>), and it rejects everything else.
\<close>

definition simpleHostname :: "string \<Rightarrow> string option" where
  "simpleHostname u =
     (let rest = (if startsWith u ''https://'' then Some (drop 8 u)
                  else if startsWith u ''http://'' then Some (drop 7 u)
                  else None)
      in case rest of
           None \<Rightarrow> None
         | Some r \<Rightarrow>
             (let h = takeWhile (\<lambda>c. c \<notin> set ''/:?#'') r
              in if h = [] then None else Some h))"

subsection \<open>The classifier of the specification\<close>

text \<open>
  The source has no separate classifier; the specification describes one
  (\<open>classify(targetUrl, trustedDomains)\<close>). \<open>classify_spec\<close> follows the specification's
  words, on the host name of the target: \<open>localhost\<close> and the loopback literal are
  SAME_ORIGIN; a candidate is TRUSTED when, after a leading \<open>www.\<close> is stripped from
  both sides, it equals a trusted domain or ends with \<open>.\<close> followed by one; everything
  else is EXTERNAL.
\<close>

datatype category = SAME_ORIGIN | TRUSTED | EXTERNAL

definition matchesTrusted_spec :: "string \<Rightarrow> string \<Rightarrow> bool" where
  "matchesTrusted_spec candidate trusted =
     (stripWww candidate = stripWww trusted \<or>
      endsWith (stripWww candidate) (CHR ''.'' # stripWww trusted))"

definition classify_spec :: "string \<Rightarrow> string list \<Rightarrow> category" where
  "classify_spec hostname trustedDomains =
     (if hostname = ''localhost'' \<or> hostname = ''127.0.0.1'' then SAME_ORIGIN
      else if list_ex (matchesTrusted_spec hostname) trustedDomains then TRUSTED
      else EXTERNAL)"

text \<open>
  The source has no set of trusted domains as a value: its trusted set is what the
  application, API, Stripe and Google conditions admit. \<open>policyAdmits\<close> applies these
  conditions of the source to a domain, with a leading \<open>www.\<close> removed as the source
  removes it from every host name it compares.
\<close>

definition policyAdmits :: "string \<Rightarrow> string \<Rightarrow> string \<Rightarrow> bool" where
  "policyAdmits appHost apiHost domain =
     (isAppOrApiDomain (stripWww domain) (stripWww appHost) (stripWww apiHost) \<or>
      isStripeDomain (stripWww domain) \<or> isGoogleDomain (stripWww domain))"

text \<open>A configuration whose application URL carries the \<open>www.\<close> label.\<close>

definition wwwConfig :: config where
  "wwwConfig = \<lparr>webAppUrl = ''https://www.app.com'', apiUrl = ''https://api.app.com''\<rparr>"

section \<open>Message dispatcher: \<open>handleWebViewMessage\<close> (App.tsx) and storage.ts\<close>

subsection \<open>JavaScript values delivered by \<open>JSON.parse\<close>\<close>

text \<open>
  \<open>message\<close> has type \<open>any\<close>: it is whatever \<open>JSON.parse\<close> returns. An object is the
  list of its properties (\<open>JSON.parse\<close> delivers each key once); \<open>undefined\<close> is
  \<open>None\<close> of \<open>jvalue option\<close>.
\<close>

datatype jvalue =
    JNull
  | JBool bool
  | JNum real
  | JStr string
  | JArr "jvalue list"
  | JObj "(string \<times> jvalue) list"

text \<open>
  Reading a property \<open>v.k\<close> of a value other than \<open>null\<close>, for the property names the
  dispatcher reads (\<open>type\<close>, \<open>payload\<close>, \<open>token\<close>, \<open>url\<close>, \<open>text\<close>): booleans,
  numbers, strings and arrays have none of them.
\<close>

fun getProp :: "jvalue \<Rightarrow> string \<Rightarrow> jvalue option" where
  "getProp (JObj kvs) k = map_of kvs k"
| "getProp v k = None"

text \<open>Optional chaining \<open>x?.k\<close>: \<open>undefined\<close> when \<open>x\<close> is \<open>undefined\<close> or \<open>null\<close>.\<close>

fun optChain :: "jvalue option \<Rightarrow> string \<Rightarrow> jvalue option" where
  "optChain None k = None"
| "optChain (Some JNull) k = None"
| "optChain (Some v) k = getProp v k"

text \<open>The truth value of a condition \<open>if (v)\<close>.\<close>

fun truthy :: "jvalue option \<Rightarrow> bool" where
  "truthy None = False"
| "truthy (Some JNull) = False"
| "truthy (Some (JBool b)) = b"
| "truthy (Some (JNum x)) = (x \<noteq> 0)"
| "truthy (Some (JStr s)) = (s \<noteq> [])"
| "truthy (Some (JArr xs)) = True"
| "truthy (Some (JObj kvs)) = True"

subsection \<open>The platform\<close>

text \<open>
  What the shell calls and does not define: \<open>JSON.parse\<close> (\<open>None\<close> when it throws), the
  conversion of a value that is not a string inside a template literal, and for each
  call of \<open>SecureStore\<close> and \<open>AsyncStorage\<close> whether it is rejected. \<open>fetchOutcome\<close> is
  what the POST of the push token comes to.
\<close>

datatype response = ResponseOk | ResponseNotOk | NetworkError

record platform =
  jsonParse :: "string \<Rightarrow> jvalue option"
  coerceToString :: "jvalue \<Rightarrow> string"
  secureSetFails :: "string \<Rightarrow> jvalue \<Rightarrow> bool"
  secureGetFails :: "string \<Rightarrow> bool"
  secureDeleteFails :: "string \<Rightarrow> bool"
  asyncGetFails :: "string \<Rightarrow> bool"
  asyncMultiRemoveFails :: "string list \<Rightarrow> bool"
  fetchOutcome :: response

text \<open>\<open>${v}\<close> in a template literal: a string is inserted as it is.\<close>

definition templateString :: "platform \<Rightarrow> jvalue \<Rightarrow> string" where
  "templateString P v = (case v of JStr s \<Rightarrow> s | _ \<Rightarrow> coerceToString P v)"

subsection \<open>The state of the shell\<close>

text \<open>
  The two stores, the React state \<open>authToken\<close> (the in-memory mirror; \<open>None\<close> is
  \<open>null\<close>), whether \<open>webViewRef.current\<close> is set, and one list per kind of effect:
  the arguments of \<open>RNLinking.openURL\<close>, of \<open>injectJavaScript\<close>, the push token and
  bearer token of each POST to \<open>/users/me/push-token\<close>, the invocations of the host's
  sharing facility, and the console.
\<close>

record shell =
  secureStore :: "string \<rightharpoonup> jvalue"
  asyncStorage :: "string \<rightharpoonup> string"
  authToken :: "jvalue option"
  webViewRef :: bool
  openedURLs :: "jvalue list"
  injectedScripts :: "string list"
  pushRequests :: "(string \<times> jvalue) list"
  shareCalls :: "jvalue list"
  console :: "string list"

datatype exn = SyntaxError | TypeError | StorageError

definition consoleLog :: "string \<Rightarrow> shell \<Rightarrow> shell" where
  "consoleLog msg st = st\<lparr>console := console st @ [msg]\<rparr>"

subsection \<open>storage.ts\<close>

definition AUTH_TOKEN_KEY :: string where "AUTH_TOKEN_KEY = ''auth_token''"
definition REFRESH_TOKEN_KEY :: string where "REFRESH_TOKEN_KEY = ''refresh_token''"
definition USER_DATA_KEY :: string where "USER_DATA_KEY = ''user_data''"
definition PUSH_TOKEN_KEY :: string where "PUSH_TOKEN_KEY = ''push_token''"

text \<open>\<open>secureStorage.setAuthToken\<close>: logs and rethrows when the store rejects the write.\<close>

definition secureStorage_setAuthToken ::
  "platform \<Rightarrow> jvalue \<Rightarrow> shell \<Rightarrow> (exn \<times> shell) + shell" where
  "secureStorage_setAuthToken P token st =
     (if secureSetFails P AUTH_TOKEN_KEY token
      then Inl (StorageError, consoleLog ''Failed to save auth token:'' st)
      else Inr (st\<lparr>secureStore := (secureStore st)(AUTH_TOKEN_KEY \<mapsto> token)\<rparr>))"

text \<open>\<open>secureStorage.getAuthToken\<close>: \<open>null\<close> when the read fails.\<close>

definition secureStorage_getAuthToken :: "platform \<Rightarrow> shell \<Rightarrow> jvalue option \<times> shell" where
  "secureStorage_getAuthToken P st =
     (if secureGetFails P AUTH_TOKEN_KEY
      then (None, consoleLog ''Failed to get auth token:'' st)
      else (secureStore st AUTH_TOKEN_KEY, st))"

text \<open>
  \<open>secureStorage.clearAll\<close>: both \<open>deleteItemAsync\<close> calls are started before
  \<open>Promise.all\<close> waits, so each deletion that is not rejected takes effect; a rejection
  is logged and absorbed.
\<close>

definition secureStorage_clearAll :: "platform \<Rightarrow> shell \<Rightarrow> shell" where
  "secureStorage_clearAll P st =
     (let st1 = (if secureDeleteFails P AUTH_TOKEN_KEY then st
                 else st\<lparr>secureStore := (secureStore st)(AUTH_TOKEN_KEY := None)\<rparr>);
          st2 = (if secureDeleteFails P REFRESH_TOKEN_KEY then st1
                 else st1\<lparr>secureStore := (secureStore st1)(REFRESH_TOKEN_KEY := None)\<rparr>)
      in if secureDeleteFails P AUTH_TOKEN_KEY \<or> secureDeleteFails P REFRESH_TOKEN_KEY
         then consoleLog ''Failed to clear secure storage:'' st2
         else st2)"

text \<open>\<open>appStorage.getPushToken\<close>: \<open>null\<close> when the read fails.\<close>

definition appStorage_getPushToken :: "platform \<Rightarrow> shell \<Rightarrow> string option \<times> shell" where
  "appStorage_getPushToken P st =
     (if asyncGetFails P PUSH_TOKEN_KEY
      then (None, consoleLog ''Failed to get push token:'' st)
      else (asyncStorage st PUSH_TOKEN_KEY, st))"

text \<open>
  \<open>appStorage.clearAll\<close>: one \<open>multiRemove\<close> of both keys; a rejected call removes
  nothing here, and is logged and absorbed.
\<close>

definition appStorage_clearAll :: "platform \<Rightarrow> shell \<Rightarrow> shell" where
  "appStorage_clearAll P st =
     (if asyncMultiRemoveFails P [USER_DATA_KEY, PUSH_TOKEN_KEY]
      then consoleLog ''Failed to clear app storage:'' st
      else st\<lparr>asyncStorage := (asyncStorage st)(USER_DATA_KEY := None, PUSH_TOKEN_KEY := None)\<rparr>)"

subsection \<open>notifications.ts: \<open>sendPushTokenToServer\<close>\<close>

definition sendPushTokenToServer :: "platform \<Rightarrow> string \<Rightarrow> shell \<Rightarrow> bool \<times> shell" where
  "sendPushTokenToServer P pushToken st =
     (case secureStorage_getAuthToken P st of (stored, st1) \<Rightarrow>
        (case stored of
           None \<Rightarrow> (False, consoleLog ''No auth token, skipping push token registration'' st1)
         | Some bearer \<Rightarrow>
             if \<not> truthy (Some bearer)
             then (False, consoleLog ''No auth token, skipping push token registration'' st1)
             else
               (let st2 = st1\<lparr>pushRequests := pushRequests st1 @ [(pushToken, bearer)]\<rparr>
                in case fetchOutcome P of
                     ResponseOk \<Rightarrow> (True, consoleLog ''Push token registered with server'' st2)
                   | ResponseNotOk \<Rightarrow>
                       (False, consoleLog ''Failed to register push token with server'' st2)
                   | NetworkError \<Rightarrow>
                       (False, consoleLog ''Error sending push token to server:'' st2))))"

subsection \<open>Scripts handed to \<open>injectJavaScript\<close>\<close>

text \<open>
  The two templates with a dynamic field: the script of the \<open>NAVIGATE\<close> message and the
  script that \<open>handleLoadEnd\<close> builds from the mirrored token. The field is inserted
  between single quotes as it is.
\<close>

definition navigatePrefix :: string where
  "navigatePrefix = ''window.location.href = '' @ [CHR 0x27]"

definition navigateSuffix :: string where
  "navigateSuffix = [CHR 0x27]"

definition navigateScript :: "string \<Rightarrow> string" where
  "navigateScript url = navigatePrefix @ url @ navigateSuffix"

definition loadEndPrefix :: string where
  "loadEndPrefix =
     [CHR 0x0A] @ ''        try {'' @ [CHR 0x0A] @
     ''          localStorage.setItem('auth_token', '' @ [CHR 0x27]"

text \<open>The text of the \<open>handleLoadEnd\<close> template after the quote that closes the field.\<close>

definition loadEndTail :: string where
  "loadEndTail =
     '');'' @ [CHR 0x0A] @
     ''          console.log('Auth token injected from mobile app');'' @ [CHR 0x0A] @
     ''        } catch (e) {'' @ [CHR 0x0A] @
     ''          console.error('Failed to inject auth token:', e);'' @ [CHR 0x0A] @
     ''        }'' @ [CHR 0x0A] @ ''      ''"

definition loadEndSuffix :: string where
  "loadEndSuffix = CHR 0x27 # loadEndTail"

definition loadEndScript :: "string \<Rightarrow> string" where
  "loadEndScript token = loadEndPrefix @ token @ loadEndSuffix"

text \<open>
  \<open>handleLoadEnd\<close>, without the loading flags and the splash screen: the token is
  injected when the mirror holds one and the WebView is mounted.
\<close>

definition handleLoadEnd :: "platform \<Rightarrow> shell \<Rightarrow> shell" where
  "handleLoadEnd P st =
     (case authToken st of
        None \<Rightarrow> st
      | Some token \<Rightarrow>
          if truthy (Some token) \<and> webViewRef st
          then st\<lparr>injectedScripts :=
                    injectedScripts st @ [loadEndScript (templateString P token)]\<rparr>
          else st)"

subsection \<open>\<open>handleWebViewMessage\<close>\<close>

text \<open>
  The body of the \<open>try\<close>: \<open>Inl\<close> is a thrown exception, with the state reached when
  it was thrown. \<open>JSON.parse\<close> throws on malformed text, \<open>message.type\<close> throws when
  \<open>message\<close> is \<open>null\<close>, and \<open>secureStorage.setAuthToken\<close> rethrows a rejected write.
  The \<open>switch\<close> compares \<open>message.type\<close> with \<open>===\<close>.
\<close>

definition handleMessageBody :: "platform \<Rightarrow> string \<Rightarrow> shell \<Rightarrow> (exn \<times> shell) + shell" where
  "handleMessageBody P raw st =
     (case jsonParse P raw of
        None \<Rightarrow> Inl (SyntaxError, st)
      | Some JNull \<Rightarrow> Inl (TypeError, st)
      | Some message \<Rightarrow>
          (let type = getProp message ''type'';
               payload = getProp message ''payload''
           in if type = Some (JStr ''AUTH_TOKEN'') then
                (case optChain payload ''token'' of
                   None \<Rightarrow> Inr st
                 | Some token \<Rightarrow>
                     if truthy (Some token) then
                       (case secureStorage_setAuthToken P token st of
                          Inl e \<Rightarrow> Inl e
                        | Inr st1 \<Rightarrow>
                            (let st2 = st1\<lparr>authToken := Some token\<rparr>
                             in case appStorage_getPushToken P st2 of (pushToken, st3) \<Rightarrow>
                                  (case pushToken of
                                     None \<Rightarrow> Inr st3
                                   | Some pt \<Rightarrow>
                                       if pt \<noteq> [] then Inr (snd (sendPushTokenToServer P pt st3))
                                       else Inr st3)))
                     else Inr st)
              else if type = Some (JStr ''LOGOUT'') then
                Inr ((appStorage_clearAll P (secureStorage_clearAll P st))\<lparr>authToken := None\<rparr>)
              else if type = Some (JStr ''SHARE'') then
                (if truthy (optChain payload ''url'') \<or> truthy (optChain payload ''text'')
                 then Inr (consoleLog ''Share requested:'' st)
                 else Inr st)
              else if type = Some (JStr ''OPEN_EXTERNAL'') then
                (case optChain payload ''url'' of
                   None \<Rightarrow> Inr st
                 | Some url \<Rightarrow>
                     if truthy (Some url) then Inr (st\<lparr>openedURLs := openedURLs st @ [url]\<rparr>)
                     else Inr st)
              else if type = Some (JStr ''NAVIGATE'') then
                (case optChain payload ''url'' of
                   None \<Rightarrow> Inr st
                 | Some url \<Rightarrow>
                     if truthy (Some url) \<and> webViewRef st
                     then Inr (st\<lparr>injectedScripts :=
                                 injectedScripts st @ [navigateScript (templateString P url)]\<rparr>)
                     else Inr st)
              else Inr (consoleLog ''Unknown message type:'' st)))"

text \<open>The whole handler: the \<open>catch\<close> logs whatever the body threw and returns.\<close>

definition handleWebViewMessage :: "platform \<Rightarrow> string \<Rightarrow> shell \<Rightarrow> (exn \<times> shell) + shell" where
  "handleWebViewMessage P raw st =
     (case handleMessageBody P raw st of
        Inl (e, st') \<Rightarrow> Inr (consoleLog ''Failed to parse WebView message:'' st')
      | Inr st' \<Rightarrow> Inr st')"

text \<open>The message kinds the \<open>switch\<close> has a case for.\<close>

definition knownTypes :: "string list" where
  "knownTypes = [''AUTH_TOKEN'', ''LOGOUT'', ''SHARE'', ''OPEN_EXTERNAL'', ''NAVIGATE'']"

text \<open>
  \<open>raw\<close> is the text of an envelope of a known kind: it parses to a value other than
  \<open>null\<close> whose \<open>type\<close> is one of the five strings.
\<close>

definition isKnownEnvelope :: "platform \<Rightarrow> string \<Rightarrow> bool" where
  "isKnownEnvelope P raw =
     (case jsonParse P raw of
        None \<Rightarrow> False
      | Some message \<Rightarrow>
          (case getProp message ''type'' of
             Some (JStr t) \<Rightarrow> t \<in> set knownTypes
           | _ \<Rightarrow> False))"

text \<open>
  A platform and a state to run the handler on: a reader for the texts the examples
  send, stores that reject nothing, and a signed-out shell with a push token on file.
\<close>

definition sampleParse :: "string \<Rightarrow> jvalue option" where
  "sampleParse raw =
     (if raw = ''{\"type\":\"LOGOUT\"}'' then Some (JObj [(''type'', JStr ''LOGOUT'')])
      else if raw = ''{\"type\":\"AUTH_TOKEN\"}'' then Some (JObj [(''type'', JStr ''AUTH_TOKEN'')])
      else if raw = ''{\"type\":\"AUTH_TOKEN\",\"payload\":{\"token\":\"abc\"}}''
        then Some (JObj [(''type'', JStr ''AUTH_TOKEN''),
                         (''payload'', JObj [(''token'', JStr ''abc'')])])
      else if raw = ''{\"type\":\"SHARE\",\"payload\":{\"url\":\"https://trustbuild.uk/jobs/1\"}}''
        then Some (JObj [(''type'', JStr ''SHARE''),
                         (''payload'', JObj [(''url'', JStr ''https://trustbuild.uk/jobs/1'')])])
      else if raw = ''{\"type\":\"SHARE\",\"payload\":{}}''
        then Some (JObj [(''type'', JStr ''SHARE''), (''payload'', JObj [])])
      else if raw = ''{\"type\":\"NAVIGATE\",\"payload\":{\"url\":\"/jobs/1\"}}''
        then Some (JObj [(''type'', JStr ''NAVIGATE''),
                         (''payload'', JObj [(''url'', JStr ''/jobs/1'')])])
      else if raw = ''{\"type\":\"PING\"}'' then Some (JObj [(''type'', JStr ''PING'')])
      else None)"

definition samplePlatform :: platform where
  "samplePlatform =
     \<lparr>jsonParse = sampleParse,
      coerceToString = (\<lambda>v. ''[object Object]''),
      secureSetFails = (\<lambda>k v. case v of JStr s \<Rightarrow> False | _ \<Rightarrow> True),
      secureGetFails = (\<lambda>k. False),
      secureDeleteFails = (\<lambda>k. False),
      asyncGetFails = (\<lambda>k. False),
      asyncMultiRemoveFails = (\<lambda>ks. False),
      fetchOutcome = ResponseOk\<rparr>"

definition signedIn :: shell where
  "signedIn =
     \<lparr>secureStore = [''auth_token'' \<mapsto> JStr ''abc'', ''refresh_token'' \<mapsto> JStr ''def''],
      asyncStorage = [''user_data'' \<mapsto> ''{}'', ''push_token'' \<mapsto> ''ExponentPushToken[x]''],
      authToken = Some (JStr ''abc''),
      webViewRef = True,
      openedURLs = [], injectedScripts = [], pushRequests = [], shareCalls = [],
      console = []\<rparr>"

text \<open>The same platform with a secure store that rejects the deletion of the auth token.\<close>

definition rejectingPlatform :: platform where
  "rejectingPlatform = samplePlatform\<lparr>secureDeleteFails := (\<lambda>k. k = ''auth_token'')\<rparr>"

section \<open>Reading the injected scripts\<close>

text \<open>
  What a generated script does with its dynamic field is decided by how JavaScript reads
  a single-quoted string literal. \<open>stringLiteral\<close> reads one, starting after the
  opening quote: it returns the value of the literal and the program text after the
  closing quote. The literal ends at the first quote that is not escaped; a line
  terminator inside it is a syntax error (\<open>None\<close>). After a backslash, \<open>escapeChar\<close>
  gives the character the escape stands for; numeric, hexadecimal and Unicode escapes
  and line continuations are not decoded by this reader (\<open>None\<close>).
\<close>

definition escapeChar :: "char \<Rightarrow> char option" where
  "escapeChar e =
     (if e = CHR ''n'' then Some (CHR 0x0A)
      else if e = CHR ''r'' then Some (CHR 0x0D)
      else if e = CHR ''t'' then Some (CHR 0x09)
      else if e = CHR ''b'' then Some (CHR 0x08)
      else if e = CHR ''f'' then Some (CHR 0x0C)
      else if e = CHR ''v'' then Some (CHR 0x0B)
      else if e \<in> set ''0123456789xu'' \<or> e = CHR 0x0A \<or> e = CHR 0x0D then None
      else Some e)"

fun stringLiteral :: "string \<Rightarrow> (string \<times> string) option" where
  "stringLiteral [] = None"
| "stringLiteral (c # cs) =
     (if c = CHR 0x27 then Some ([], cs)
      else if c = CHR 0x0A \<or> c = CHR 0x0D then None
      else if c = CHR 0x5C then
        (case cs of
           [] \<Rightarrow> None
         | e # cs' \<Rightarrow>
             (case escapeChar e of
                None \<Rightarrow> None
              | Some d \<Rightarrow>
                  (case stringLiteral cs' of
                     None \<Rightarrow> None
                   | Some (v, rest) \<Rightarrow> Some (d # v, rest))))
      else
        (case stringLiteral cs of
           None \<Rightarrow> None
         | Some (v, rest) \<Rightarrow> Some (c # v, rest)))"

text \<open>
  What a script built by \<open>handleLoadEnd\<close> stores under \<open>auth_token\<close>, and where a
  script built for \<open>NAVIGATE\<close> navigates to: the value of the literal that opens where
  the template's fixed text ends, provided the text after the literal is the rest of
  the template. The result is \<open>None\<close> when the literal is malformed or is followed by
  anything else, that is, when the field has changed the program around it.
\<close>

definition injectedTokenValue :: "string \<Rightarrow> string option" where
  "injectedTokenValue script =
     (case stringLiteral (drop (length loadEndPrefix) script) of
        None \<Rightarrow> None
      | Some (v, rest) \<Rightarrow> if rest = loadEndTail then Some v else None)"

definition navigationTarget :: "string \<Rightarrow> string option" where
  "navigationTarget script =
     (case stringLiteral (drop (length navigatePrefix) script) of
        None \<Rightarrow> None
      | Some (v, rest) \<Rightarrow> if rest = [] then Some v else None)"

text \<open>A value that needs no escaping between single quotes.\<close>

definition plainForLiteral :: "string \<Rightarrow> bool" where
  "plainForLiteral s = (\<forall>c \<in> set s. c \<noteq> CHR 0x27 \<and> c \<noteq> CHR 0x5C \<and> c \<noteq> CHR 0x0A \<and> c \<noteq> CHR 0x0D)"

section \<open>The injected bridge script (\<open>injectedJavaScript\<close> in App.tsx)\<close>

text \<open>
  The page as the script sees it: local storage, the envelopes handed to
  \<open>window.ReactNativeWebView.postMessage\<close> (before \<open>JSON.stringify\<close>), the location,
  the calls that reached the browser's own \<open>window.open\<close>, and the console warnings.
\<close>

datatype envelope = Envelope string jvalue

record page =
  localStorage :: "string \<rightharpoonup> string"
  posted :: "envelope list"
  locationHref :: string
  locationHostname :: string
  locationOrigin :: string
  openedWindows :: "string list"
  warnings :: "string list"

text \<open>
  The three function-valued properties the script replaces: \<open>localStorage.setItem\<close>,
  \<open>localStorage.removeItem\<close> and \<open>window.open\<close>. \<open>browser\<close> holds the ones a fresh
  page starts with.
\<close>

record bindings =
  setItem :: "string \<Rightarrow> string \<Rightarrow> page \<Rightarrow> page"
  removeItem :: "string \<Rightarrow> page \<Rightarrow> page"
  windowOpen :: "string \<Rightarrow> page \<Rightarrow> page"

definition browser :: bindings where
  "browser =
     \<lparr>setItem = (\<lambda>key value pg. pg\<lparr>localStorage := (localStorage pg)(key \<mapsto> value)\<rparr>),
      removeItem = (\<lambda>key pg. pg\<lparr>localStorage := (localStorage pg)(key := None)\<rparr>),
      windowOpen = (\<lambda>url pg. pg\<lparr>openedWindows := openedWindows pg @ [url]\<rparr>)\<rparr>"

text \<open>\<open>window.TrustBuildMobile.sendMessage\<close> and \<open>openExternal\<close>.\<close>

definition sendMessage :: "string \<Rightarrow> jvalue \<Rightarrow> page \<Rightarrow> page" where
  "sendMessage type payload pg = pg\<lparr>posted := posted pg @ [Envelope type payload]\<rparr>"

definition openExternal :: "string \<Rightarrow> page \<Rightarrow> page" where
  "openExternal url pg = sendMessage ''OPEN_EXTERNAL'' (JObj [(''url'', JStr url)]) pg"

text \<open>
  One execution of the script: each binding is replaced by a function that closes over
  the binding found at that moment (\<open>originalSetItem\<close>, \<open>originalRemoveItem\<close>,
  \<open>originalOpen\<close>). \<open>urlHostnameFrom u base\<close> is \<open>new URL(u, base).hostname\<close>, \<open>None\<close>
  when the constructor throws. The script has no marker that records an earlier
  execution. Its other statements (the \<open>window.TrustBuildMobile\<close> object, the click
  listener, the ready event) do not touch the three bindings; the values the wrappers
  return are left out.
\<close>

definition injectedJavaScript ::
  "(string \<Rightarrow> string \<Rightarrow> string option) \<Rightarrow> bindings \<Rightarrow> bindings" where
  "injectedJavaScript urlHostnameFrom b =
     (let originalSetItem = setItem b;
          originalRemoveItem = removeItem b;
          originalOpen = windowOpen b
      in \<lparr>setItem = (\<lambda>key value pg.
              originalSetItem key value
                (if key = ''auth_token''
                 then sendMessage ''AUTH_TOKEN'' (JObj [(''token'', JStr value)]) pg
                 else pg)),
           removeItem = (\<lambda>key pg.
              originalRemoveItem key
                (if key = ''auth_token'' then sendMessage ''LOGOUT'' (JObj []) pg else pg)),
           windowOpen = (\<lambda>url pg.
              if url \<noteq> [] then
                (case urlHostnameFrom url (locationOrigin pg) of
                   None \<Rightarrow>
                     openExternal url
                       (pg\<lparr>warnings := warnings pg @ [''Failed to parse URL in window.open:'']\<rparr>)
                 | Some host \<Rightarrow>
                     (let currentHost = stripWww (locationHostname pg);
                          targetHost = stripWww host
                      in if targetHost = currentHost \<or>
                            endsWith targetHost (CHR ''.'' # currentHost) \<or>
                            endsWith targetHost ''.stripe.com'' \<or>
                            targetHost = ''stripe.com''
                         then pg\<lparr>locationHref := url\<rparr>
                         else openExternal url pg))
              else originalOpen url pg)\<rparr>)"

text \<open>A freshly loaded page of the application, and a URL reader that rejects everything.\<close>

definition freshPage :: page where
  "freshPage =
     \<lparr>localStorage = Map.empty, posted = [],
      locationHref = ''https://trustbuild.uk/'', locationHostname = ''trustbuild.uk'',
      locationOrigin = ''https://trustbuild.uk'', openedWindows = [], warnings = []\<rparr>"

definition noUrl :: "string \<Rightarrow> string \<Rightarrow> string option" where
  "noUrl u base = None"

section \<open>Properties of the navigation policy\<close>

lemma endsWith_append: "endsWith (xs @ p) p"
  by (simp add: endsWith_def)

lemma endsWith_iff: "endsWith s p \<longleftrightarrow> (\<exists>xs. s = xs @ p)"
proof
  assume h: "endsWith s p"
  then have "s = take (length s - length p) s @ p"
    by (metis append_take_drop_id endsWith_def)
  then show "\<exists>xs. s = xs @ p" ..
next
  assume "\<exists>xs. s = xs @ p"
  then show "endsWith s p" by (auto simp: endsWith_append)
qed

lemma endsWith_longer:
  assumes "endsWith s (c # p @ q)"
  shows "endsWith s q"
proof -
  from assms obtain xs where "s = xs @ (c # p @ q)" by (auto simp: endsWith_iff)
  then have "s = (xs @ c # p) @ q" by simp
  then show ?thesis by (metis endsWith_append)
qed

lemma isHttpUrl_hd: "isHttpUrl url \<Longrightarrow> \<exists>t. url = CHR ''h'' # t"
  by (cases url) (auto simp: isHttpUrl_def startsWith_def)

lemma http_not_passthrough: "isHttpUrl url \<Longrightarrow> \<not> isPassthroughScheme url"
  by (auto dest!: isHttpUrl_hd simp: isPassthroughScheme_def startsWith_def)

lemma http_not_device: "isHttpUrl url \<Longrightarrow> \<not> isDeviceScheme url"
  by (auto dest!: isHttpUrl_hd simp: isDeviceScheme_def startsWith_def)

lemma policy_allows:
  assumes "\<not> isDeviceScheme url"
    and "urlHostname url = Some h"
    and "urlHostname (webAppUrl cfg) = Some a"
    and "urlHostname (apiUrl cfg) = Some b"
    and "isAppOrApiDomain (stripWww h) (stripWww a) (stripWww b) \<or> isLocalDevelopment h \<or>
         isStripeDomain (stripWww h) \<or> isGoogleDomain (stripWww h)"
  shows "shouldStartLoadWithRequest urlHostname cfg url = (True, [])"
  using assms by (auto simp: shouldStartLoadWithRequest_def Let_def)

lemma policy_delegates:
  assumes "isHttpUrl url"
    and "urlHostname url = Some h"
    and "urlHostname (webAppUrl cfg) = Some a"
    and "urlHostname (apiUrl cfg) = Some b"
    and "\<not> isAppOrApiDomain (stripWww h) (stripWww a) (stripWww b)"
    and "\<not> isLocalDevelopment h"
    and "\<not> isStripeDomain (stripWww h)"
    and "\<not> isGoogleDomain (stripWww h)"
  shows "shouldStartLoadWithRequest urlHostname cfg url = (False, [url])"
  using assms http_not_passthrough [of url] http_not_device [of url]
  by (simp add: shouldStartLoadWithRequest_def Let_def)

lemma stripWww_fixed [simp]:
  "stripWww ''js.stripe.com'' = ''js.stripe.com''"
  "stripWww ''checkout.stripe.com'' = ''checkout.stripe.com''"
  "stripWww ''stripe.com'' = ''stripe.com''"
  "stripWww ''accounts.google.com'' = ''accounts.google.com''"
  by (simp_all add: stripWww_def startsWith_def)

lemma stripWww_examples:
  "stripWww ''www.app.com'' = ''app.com''"
  "stripWww ''app.com'' = ''app.com''"
  "stripWww ''www.www.app.com'' = ''www.app.com''"
  "stripWww ''wwwx.app.com'' = ''wwwx.app.com''"
  by (simp_all add: stripWww_def startsWith_def)

lemma subdomain_trans:
  assumes "x = base \<or> endsWith x (CHR ''.'' # base)"
    and "y = x \<or> endsWith y (CHR ''.'' # x)"
  shows "y = base \<or> endsWith y (CHR ''.'' # base)"
proof (cases "y = x")
  case True
  with assms(1) show ?thesis by simp
next
  case False
  with assms(2) obtain ys where y: "y = ys @ CHR ''.'' # x" by (auto simp: endsWith_iff)
  from assms(1) show ?thesis
  proof
    assume "x = base"
    with y show ?thesis by (auto simp: endsWith_iff)
  next
    assume "endsWith x (CHR ''.'' # base)"
    then obtain zs where "x = zs @ CHR ''.'' # base" by (auto simp: endsWith_iff)
    with y have "y = (ys @ CHR ''.'' # zs) @ CHR ''.'' # base" by simp
    then have "endsWith y (CHR ''.'' # base)" by (metis endsWith_append)
    then show ?thesis ..
  qed
qed

lemma suffix_trans:
  assumes "endsWith x p" and "y = x \<or> endsWith y (c # x)"
  shows "endsWith y p"
proof (cases "y = x")
  case True
  with assms(1) show ?thesis by simp
next
  case False
  with assms(2) obtain ys where y: "y = ys @ c # x" by (auto simp: endsWith_iff)
  from assms(1) obtain zs where "x = zs @ p" by (auto simp: endsWith_iff)
  with y have "y = (ys @ c # zs) @ p" by simp
  then show ?thesis by (metis endsWith_append)
qed

lemma isAppOrApiDomain_closed:
  assumes "isAppOrApiDomain x appDomain apiDomain"
    and "y = x \<or> endsWith y (CHR ''.'' # x)"
  shows "isAppOrApiDomain y appDomain apiDomain"
proof -
  from assms(1) have "(x = appDomain \<or> endsWith x (CHR ''.'' # appDomain)) \<or>
      (x = apiDomain \<or> endsWith x (CHR ''.'' # apiDomain))"
    by (auto simp: isAppOrApiDomain_def)
  then show ?thesis
    using subdomain_trans [OF _ assms(2), of appDomain]
      subdomain_trans [OF _ assms(2), of apiDomain]
    by (auto simp: isAppOrApiDomain_def)
qed

lemma isStripeDomain_closed:
  assumes "isStripeDomain x" and "y = x \<or> endsWith y (CHR ''.'' # x)"
  shows "isStripeDomain y"
proof -
  from assms(1) have "x = ''stripe.com'' \<or> endsWith x (CHR ''.'' # ''stripe.com'')"
    by (auto simp: isStripeDomain_def endsWith_def)
  then have "y = ''stripe.com'' \<or> endsWith y (CHR ''.'' # ''stripe.com'')"
    using assms(2) by (rule subdomain_trans)
  then show ?thesis by (auto simp: isStripeDomain_def)
qed

lemma isGoogleDomain_closed:
  assumes "isGoogleDomain x" and "y = x \<or> endsWith y (CHR ''.'' # x)"
  shows "isGoogleDomain y"
proof -
  from assms(1) have "endsWith x ''.google.com''"
    by (auto simp: isGoogleDomain_def endsWith_def)
  then have "endsWith y ''.google.com''"
    using assms(2) by (rule suffix_trans)
  then show ?thesis by (simp add: isGoogleDomain_def)
qed

lemma admitted_match_allowed:
  assumes "policyAdmits a b d" and "matchesTrusted_spec h d"
  shows "isAppOrApiDomain (stripWww h) (stripWww a) (stripWww b) \<or>
         isStripeDomain (stripWww h) \<or> isGoogleDomain (stripWww h)"
proof -
  from assms(2) have m: "stripWww h = stripWww d \<or> endsWith (stripWww h) (CHR ''.'' # stripWww d)"
    by (simp add: matchesTrusted_spec_def)
  from assms(1) show ?thesis
    using isAppOrApiDomain_closed [OF _ m] isStripeDomain_closed [OF _ m]
      isGoogleDomain_closed [OF _ m]
    by (auto simp: policyAdmits_def)
qed

lemma simpleHostname_production [simp]:
  "simpleHostname (webAppUrl productionConfig) = Some ''trustbuild.uk''"
  "simpleHostname (apiUrl productionConfig) = Some ''api.trustbuild.uk''"
  by (simp_all add: simpleHostname_def productionConfig_def startsWith_def)

lemma simpleHostname_www:
  "simpleHostname (webAppUrl wwwConfig) = Some ''www.app.com''"
  "simpleHostname (apiUrl wwwConfig) = Some ''api.app.com''"
  by (simp_all add: simpleHostname_def wwwConfig_def startsWith_def)

text \<open>
  C1, as stated, fails: the trusted set is fixed in the source and is not a parameter, so
  a domain that is trusted in \<open>D\<close> need not be admitted by the policy. With
  \<open>D = {twitter.com}\<close> the classifier rates \<open>https://twitter.com/share\<close> TRUSTED and
  the policy delegates it; with \<open>D = {google.com}\<close> the same happens for
  \<open>https://google.com/\<close> and \<open>https://www.google.com/\<close>, since the Google condition
  of the source admits only host names that end with \<open>.google.com\<close>.
\<close>

theorem unadmitted_trusted_domain_counterexample:
  "isHttpUrl ''https://twitter.com/share'' \<and>
   simpleHostname ''https://twitter.com/share'' = Some ''twitter.com'' \<and>
   classify_spec ''twitter.com'' [''twitter.com''] = TRUSTED \<and>
   shouldStartLoadWithRequest simpleHostname productionConfig ''https://twitter.com/share''
     = (False, [''https://twitter.com/share'']) \<and>
   isHttpUrl ''https://google.com/'' \<and>
   simpleHostname ''https://google.com/'' = Some ''google.com'' \<and>
   classify_spec ''google.com'' [''google.com''] = TRUSTED \<and>
   shouldStartLoadWithRequest simpleHostname productionConfig ''https://google.com/''
     = (False, [''https://google.com/'']) \<and>
   isHttpUrl ''https://www.google.com/'' \<and>
   simpleHostname ''https://www.google.com/'' = Some ''www.google.com'' \<and>
   classify_spec ''www.google.com'' [''google.com''] = TRUSTED \<and>
   shouldStartLoadWithRequest simpleHostname productionConfig ''https://www.google.com/''
     = (False, [''https://www.google.com/''])"
proof -
  have s: "stripWww ''twitter.com'' = ''twitter.com''" "stripWww ''google.com'' = ''google.com''"
      "stripWww ''www.google.com'' = ''google.com''"
      "stripWww ''trustbuild.uk'' = ''trustbuild.uk''"
      "stripWww ''api.trustbuild.uk'' = ''api.trustbuild.uk''"
    by (simp_all add: stripWww_def startsWith_def)
  have h: "isHttpUrl ''https://twitter.com/share''" "isHttpUrl ''https://google.com/''"
      "isHttpUrl ''https://www.google.com/''"
    by (simp_all add: isHttpUrl_def startsWith_def)
  have p: "simpleHostname ''https://twitter.com/share'' = Some ''twitter.com''"
      "simpleHostname ''https://google.com/'' = Some ''google.com''"
      "simpleHostname ''https://www.google.com/'' = Some ''www.google.com''"
    by (simp_all add: simpleHostname_def startsWith_def)
  have c: "classify_spec ''twitter.com'' [''twitter.com''] = TRUSTED"
      "classify_spec ''google.com'' [''google.com''] = TRUSTED"
      "classify_spec ''www.google.com'' [''google.com''] = TRUSTED"
    by (simp_all add: classify_spec_def matchesTrusted_spec_def s)
  have n: "\<not> isAppOrApiDomain ''twitter.com'' ''trustbuild.uk'' ''api.trustbuild.uk''"
      "\<not> isStripeDomain ''twitter.com''" "\<not> isGoogleDomain ''twitter.com''"
      "\<not> isLocalDevelopment ''twitter.com''"
      "\<not> isAppOrApiDomain ''google.com'' ''trustbuild.uk'' ''api.trustbuild.uk''"
      "\<not> isStripeDomain ''google.com''" "\<not> isGoogleDomain ''google.com''"
      "\<not> isLocalDevelopment ''google.com''" "\<not> isLocalDevelopment ''www.google.com''"
    by (simp_all add: isAppOrApiDomain_def isStripeDomain_def isGoogleDomain_def
        isLocalDevelopment_def endsWith_def)
  have d1: "shouldStartLoadWithRequest simpleHostname productionConfig
      ''https://twitter.com/share'' = (False, [''https://twitter.com/share''])"
    using policy_delegates [OF h(1) p(1) simpleHostname_production] n by (simp add: s)
  have d2: "shouldStartLoadWithRequest simpleHostname productionConfig
      ''https://google.com/'' = (False, [''https://google.com/''])"
    using policy_delegates [OF h(2) p(2) simpleHostname_production] n by (simp add: s)
  have d3: "shouldStartLoadWithRequest simpleHostname productionConfig
      ''https://www.google.com/'' = (False, [''https://www.google.com/''])"
    using policy_delegates [OF h(3) p(3) simpleHostname_production] n by (simp add: s)
  from h p c d1 d2 d3 show ?thesis by simp
qed

text \<open>
  C1, amended: for every configuration, every set \<open>D\<close> of trusted domains each of which
  the policy itself admits (with a leading \<open>www.\<close> removed, the entry equals the
  application or API domain or is a dot-separated subdomain of one, or meets the Stripe
  or the Google condition of the source), and every http(s) URL: if the classifier rates
  the host name SAME_ORIGIN or TRUSTED against \<open>D\<close> (it is \<open>localhost\<close> or
  \<open>127.0.0.1\<close>, or after the removal of a leading \<open>www.\<close> on both sides it equals an
  entry of \<open>D\<close> or ends with a dot followed by one), the function returns \<open>true\<close> and
  makes no \<open>openURL\<close> call.
\<close>

theorem admitted_trusted_loads_internal:
  assumes "isHttpUrl u"
    and "urlHostname u = Some h"
    and "urlHostname (webAppUrl cfg) = Some a"
    and "urlHostname (apiUrl cfg) = Some b"
    and "list_all (policyAdmits a b) D"
    and "classify_spec h D = SAME_ORIGIN \<or> classify_spec h D = TRUSTED"
  shows "shouldStartLoadWithRequest urlHostname cfg u = (True, [])"
proof -
  have "isLocalDevelopment h \<or> (\<exists>d \<in> set D. matchesTrusted_spec h d)"
    using assms(6)
    by (auto simp: classify_spec_def isLocalDevelopment_def list_ex_iff split: if_splits)
  moreover have "policyAdmits a b d" if "d \<in> set D" for d
    using assms(5) that by (simp add: list_all_iff)
  ultimately have "isAppOrApiDomain (stripWww h) (stripWww a) (stripWww b) \<or>
      isLocalDevelopment h \<or> isStripeDomain (stripWww h) \<or> isGoogleDomain (stripWww h)"
    using admitted_match_allowed [of a b _ h] by blast
  then show ?thesis
    using policy_allows [of u urlHostname h cfg a b] assms(1-4) http_not_device [of u]
    by blast
qed

theorem admitted_trusted_loads_internal_witness:
  "isHttpUrl ''https://checkout.stripe.com/pay/xyz'' \<and>
   simpleHostname ''https://checkout.stripe.com/pay/xyz'' = Some ''checkout.stripe.com'' \<and>
   list_all (policyAdmits ''trustbuild.uk'' ''api.trustbuild.uk'')
     [''trustbuild.uk'', ''api.trustbuild.uk'', ''stripe.com'', ''accounts.google.com''] \<and>
   classify_spec ''checkout.stripe.com''
     [''trustbuild.uk'', ''api.trustbuild.uk'', ''stripe.com'', ''accounts.google.com'']
     = TRUSTED \<and>
   shouldStartLoadWithRequest simpleHostname productionConfig
     ''https://checkout.stripe.com/pay/xyz'' = (True, []) \<and>
   isHttpUrl ''https://app.com/'' \<and>
   simpleHostname ''https://app.com/'' = Some ''app.com'' \<and>
   list_all (policyAdmits ''www.app.com'' ''api.app.com'') [''www.app.com''] \<and>
   classify_spec ''app.com'' [''www.app.com''] = TRUSTED \<and>
   shouldStartLoadWithRequest simpleHostname wwwConfig ''https://app.com/'' = (True, [])"
proof -
  have s: "stripWww ''trustbuild.uk'' = ''trustbuild.uk''"
      "stripWww ''api.trustbuild.uk'' = ''api.trustbuild.uk''"
      "stripWww ''stripe.com'' = ''stripe.com''"
      "stripWww ''accounts.google.com'' = ''accounts.google.com''"
      "stripWww ''checkout.stripe.com'' = ''checkout.stripe.com''"
      "stripWww ''www.app.com'' = ''app.com''" "stripWww ''app.com'' = ''app.com''"
      "stripWww ''api.app.com'' = ''api.app.com''"
    by (simp_all add: stripWww_def startsWith_def)
  have 1: "isHttpUrl ''https://checkout.stripe.com/pay/xyz''" "isHttpUrl ''https://app.com/''"
    by (simp_all add: isHttpUrl_def startsWith_def)
  have 2: "simpleHostname ''https://checkout.stripe.com/pay/xyz'' = Some ''checkout.stripe.com''"
      "simpleHostname ''https://app.com/'' = Some ''app.com''"
    by (simp_all add: simpleHostname_def startsWith_def)
  have 3: "list_all (policyAdmits ''trustbuild.uk'' ''api.trustbuild.uk'')
      [''trustbuild.uk'', ''api.trustbuild.uk'', ''stripe.com'', ''accounts.google.com'']"
    by (simp add: policyAdmits_def s isAppOrApiDomain_def isStripeDomain_def isGoogleDomain_def)
  have 4: "classify_spec ''checkout.stripe.com''
      [''trustbuild.uk'', ''api.trustbuild.uk'', ''stripe.com'', ''accounts.google.com'']
      = TRUSTED"
    by (simp add: classify_spec_def matchesTrusted_spec_def s endsWith_def)
  have 5: "list_all (policyAdmits ''www.app.com'' ''api.app.com'') [''www.app.com'']"
    by (simp add: policyAdmits_def s isAppOrApiDomain_def)
  have 6: "classify_spec ''app.com'' [''www.app.com''] = TRUSTED"
    by (simp add: classify_spec_def matchesTrusted_spec_def s)
  have r1: "shouldStartLoadWithRequest simpleHostname productionConfig
      ''https://checkout.stripe.com/pay/xyz'' = (True, [])"
    using admitted_trusted_loads_internal [OF 1(1) 2(1) simpleHostname_production 3] 4 by simp
  have r2: "shouldStartLoadWithRequest simpleHostname wwwConfig ''https://app.com/'' = (True, [])"
    using admitted_trusted_loads_internal [OF 1(2) 2(2) simpleHostname_www 5] 6 by simp
  from 1 2 3 4 5 6 r1 r2 show ?thesis by simp
qed

text \<open>
  C2: matching against the application and API domains is exact on dot-separated
  labels. For a request that no other rule admits (not a local development host, not in
  the Stripe or Google lists), the decision is to load in the WebView exactly when the
  request domain equals the application or API domain or ends with a dot followed by
  it; a bare substring does not match: with application domain \<open>app.com\<close>, the
  request \<open>https://evilapp.com\<close> is classified EXTERNAL and handed to the operating
  system.
\<close>

theorem trusted_match_is_label_suffix:
  assumes "isHttpUrl u"
    and "urlHostname u = Some h"
    and "urlHostname (webAppUrl cfg) = Some a"
    and "urlHostname (apiUrl cfg) = Some b"
    and "\<not> isLocalDevelopment h"
    and "\<not> isStripeDomain (stripWww h)"
    and "\<not> isGoogleDomain (stripWww h)"
  shows "(fst (shouldStartLoadWithRequest urlHostname cfg u) \<longleftrightarrow>
            stripWww h = stripWww a \<or> endsWith (stripWww h) (CHR ''.'' # stripWww a) \<or>
            stripWww h = stripWww b \<or> endsWith (stripWww h) (CHR ''.'' # stripWww b)) \<and>
         classify_spec ''evilapp.com'' [''app.com''] = EXTERNAL \<and>
         shouldStartLoadWithRequest simpleHostname
           \<lparr>webAppUrl = ''https://app.com'', apiUrl = ''https://api.app.com''\<rparr>
           ''https://evilapp.com'' = (False, [''https://evilapp.com''])"
proof -
  have general: "fst (shouldStartLoadWithRequest urlHostname cfg u) \<longleftrightarrow>
      stripWww h = stripWww a \<or> endsWith (stripWww h) (CHR ''.'' # stripWww a) \<or>
      stripWww h = stripWww b \<or> endsWith (stripWww h) (CHR ''.'' # stripWww b)"
  proof (cases "isAppOrApiDomain (stripWww h) (stripWww a) (stripWww b)")
    case True
    then have "shouldStartLoadWithRequest urlHostname cfg u = (True, [])"
      using policy_allows [of u urlHostname h cfg a b] assms(1-4) http_not_device [of u]
      by blast
    with True show ?thesis by (simp add: isAppOrApiDomain_def)
  next
    case False
    then have "shouldStartLoadWithRequest urlHostname cfg u = (False, [u])"
      using policy_delegates [of u urlHostname h cfg a b] assms by blast
    with False show ?thesis by (simp add: isAppOrApiDomain_def)
  qed
  have cls: "classify_spec ''evilapp.com'' [''app.com''] = EXTERNAL"
    by (simp add: classify_spec_def matchesTrusted_spec_def stripWww_def startsWith_def
        endsWith_def)
  have evil: "shouldStartLoadWithRequest simpleHostname
      \<lparr>webAppUrl = ''https://app.com'', apiUrl = ''https://api.app.com''\<rparr>
      ''https://evilapp.com'' = (False, [''https://evilapp.com''])"
    by (simp add: shouldStartLoadWithRequest_def simpleHostname_def startsWith_def
        isPassthroughScheme_def isDeviceScheme_def isHttpUrl_def isAppOrApiDomain_def
        isLocalDevelopment_def isStripeDomain_def isGoogleDomain_def stripWww_def
        endsWith_def Let_def)
  from general cls evil show ?thesis by blast
qed

theorem trusted_match_is_label_suffix_witness:
  "isHttpUrl ''https://jobs.trustbuild.uk/1'' \<and>
   simpleHostname ''https://jobs.trustbuild.uk/1'' = Some ''jobs.trustbuild.uk'' \<and>
   \<not> isLocalDevelopment ''jobs.trustbuild.uk'' \<and>
   \<not> isStripeDomain (stripWww ''jobs.trustbuild.uk'') \<and>
   \<not> isGoogleDomain (stripWww ''jobs.trustbuild.uk'') \<and>
   endsWith (stripWww ''jobs.trustbuild.uk'') (CHR ''.'' # stripWww ''trustbuild.uk'') \<and>
   fst (shouldStartLoadWithRequest simpleHostname productionConfig ''https://jobs.trustbuild.uk/1'')"
proof -
  have 1: "isHttpUrl ''https://jobs.trustbuild.uk/1''"
    by (simp add: isHttpUrl_def startsWith_def)
  have 2: "simpleHostname ''https://jobs.trustbuild.uk/1'' = Some ''jobs.trustbuild.uk''"
    by (simp add: simpleHostname_def startsWith_def)
  have 3: "\<not> isLocalDevelopment ''jobs.trustbuild.uk''"
    by (simp add: isLocalDevelopment_def)
  have s: "stripWww ''jobs.trustbuild.uk'' = ''jobs.trustbuild.uk''"
      "stripWww ''trustbuild.uk'' = ''trustbuild.uk''"
    by (simp_all add: stripWww_def startsWith_def)
  have 4: "\<not> isStripeDomain (stripWww ''jobs.trustbuild.uk'')"
    by (simp add: s isStripeDomain_def endsWith_def)
  have 5: "\<not> isGoogleDomain (stripWww ''jobs.trustbuild.uk'')"
    by (simp add: s isGoogleDomain_def endsWith_def)
  have 6: "endsWith (stripWww ''jobs.trustbuild.uk'') (CHR ''.'' # stripWww ''trustbuild.uk'')"
    by (simp add: s endsWith_def)
  show ?thesis
    using trusted_match_is_label_suffix [of "''https://jobs.trustbuild.uk/1''" simpleHostname
        "''jobs.trustbuild.uk''" productionConfig "''trustbuild.uk''" "''api.trustbuild.uk''"]
      1 2 3 4 5 6
    by simp
qed

text \<open>
  C3: an http(s) URL whose host name matches neither the application domain, the API
  domain, a local development host, nor the Stripe or Google lists is delegated: the
  function returns \<open>false\<close>, so the WebView does not load it, and \<open>openURL\<close> is
  called once, with exactly that URL.
\<close>

theorem untrusted_http_delegated:
  assumes "isHttpUrl u"
    and "urlHostname u = Some h"
    and "urlHostname (webAppUrl cfg) = Some a"
    and "urlHostname (apiUrl cfg) = Some b"
    and "\<not> isAppOrApiDomain (stripWww h) (stripWww a) (stripWww b)"
    and "\<not> isLocalDevelopment h"
    and "\<not> isStripeDomain (stripWww h)"
    and "\<not> isGoogleDomain (stripWww h)"
  shows "shouldStartLoadWithRequest urlHostname cfg u = (False, [u])"
  using assms by (rule policy_delegates)

theorem untrusted_http_delegated_witness:
  "isHttpUrl ''https://twitter.com/share'' \<and>
   simpleHostname ''https://twitter.com/share'' = Some ''twitter.com'' \<and>
   \<not> isAppOrApiDomain (stripWww ''twitter.com'') (stripWww ''trustbuild.uk'')
        (stripWww ''api.trustbuild.uk'') \<and>
   \<not> isLocalDevelopment ''twitter.com'' \<and>
   \<not> isStripeDomain (stripWww ''twitter.com'') \<and>
   \<not> isGoogleDomain (stripWww ''twitter.com'') \<and>
   shouldStartLoadWithRequest simpleHostname productionConfig ''https://twitter.com/share''
     = (False, [''https://twitter.com/share''])"
proof -
  have 1: "isHttpUrl ''https://twitter.com/share''"
    by (simp add: isHttpUrl_def startsWith_def)
  have 2: "simpleHostname ''https://twitter.com/share'' = Some ''twitter.com''"
    by (simp add: simpleHostname_def startsWith_def)
  have s: "stripWww ''twitter.com'' = ''twitter.com''"
      "stripWww ''trustbuild.uk'' = ''trustbuild.uk''"
      "stripWww ''api.trustbuild.uk'' = ''api.trustbuild.uk''"
    by (simp_all add: stripWww_def startsWith_def)
  have 3: "\<not> isAppOrApiDomain (stripWww ''twitter.com'') (stripWww ''trustbuild.uk'')
        (stripWww ''api.trustbuild.uk'')"
    by (simp add: s isAppOrApiDomain_def endsWith_def)
  have 4: "\<not> isLocalDevelopment ''twitter.com''"
    by (simp add: isLocalDevelopment_def)
  have 5: "\<not> isStripeDomain (stripWww ''twitter.com'')"
    by (simp add: s isStripeDomain_def endsWith_def)
  have 6: "\<not> isGoogleDomain (stripWww ''twitter.com'')"
    by (simp add: s isGoogleDomain_def endsWith_def)
  show ?thesis
    using untrusted_http_delegated [of "''https://twitter.com/share''" simpleHostname
        "''twitter.com''" productionConfig "''trustbuild.uk''" "''api.trustbuild.uk''"]
      1 2 3 4 5 6
    by simp
qed

text \<open>
  C4: a URL that starts with none of the passthrough or device-handler schemes and that
  the URL parser rejects is loaded in the WebView (fail open): the function returns
  \<open>true\<close> and makes no \<open>openURL\<close> call.
\<close>

theorem unparseable_loads_internal:
  assumes "\<not> isPassthroughScheme u"
    and "\<not> isDeviceScheme u"
    and "urlHostname u = None"
  shows "shouldStartLoadWithRequest urlHostname cfg u = (True, [])"
  using assms by (simp add: shouldStartLoadWithRequest_def)

theorem unparseable_loads_internal_witness:
  "\<not> isPassthroughScheme ''http://'' \<and> \<not> isDeviceScheme ''http://'' \<and>
   simpleHostname ''http://'' = None \<and>
   shouldStartLoadWithRequest simpleHostname productionConfig ''http://'' = (True, [])"
proof -
  have 1: "\<not> isPassthroughScheme ''http://''"
    by (simp add: isPassthroughScheme_def startsWith_def)
  have 2: "\<not> isDeviceScheme ''http://''"
    by (simp add: isDeviceScheme_def startsWith_def)
  have 3: "simpleHostname ''http://'' = None"
    by (simp add: simpleHostname_def startsWith_def)
  show ?thesis
    using unparseable_loads_internal [of "''http://''" simpleHostname productionConfig] 1 2 3
    by simp
qed

section \<open>Properties of the dispatcher\<close>

lemma handler_returns: "\<exists>st'. handleWebViewMessage P raw st = Inr st'"
  by (simp add: handleWebViewMessage_def split: sum.splits prod.splits)

lemma unknown_logged:
  assumes "\<not> isKnownEnvelope P raw"
  shows "\<exists>msg. handleWebViewMessage P raw st = Inr (st\<lparr>console := console st @ [msg]\<rparr>)"
proof (cases "jsonParse P raw")
  case None
  then have "handleWebViewMessage P raw st =
      Inr (st\<lparr>console := console st @ [''Failed to parse WebView message:'']\<rparr>)"
    by (simp add: handleWebViewMessage_def handleMessageBody_def consoleLog_def)
  then show ?thesis by blast
next
  case (Some message)
  show ?thesis
  proof (cases "message = JNull")
    case True
    with Some have "handleWebViewMessage P raw st =
        Inr (st\<lparr>console := console st @ [''Failed to parse WebView message:'']\<rparr>)"
      by (simp add: handleWebViewMessage_def handleMessageBody_def consoleLog_def)
    then show ?thesis by blast
  next
    case False
    have ty: "getProp message ''type'' \<noteq> Some (JStr t)" if "t \<in> set knownTypes" for t
      using assms Some that by (auto simp: isKnownEnvelope_def split: option.splits jvalue.splits)
    have "handleMessageBody P raw st = Inr (consoleLog ''Unknown message type:'' st)"
      using Some False ty [of "''AUTH_TOKEN''"] ty [of "''LOGOUT''"] ty [of "''SHARE''"]
        ty [of "''OPEN_EXTERNAL''"] ty [of "''NAVIGATE''"]
      by (cases message) (simp_all add: handleMessageBody_def knownTypes_def Let_def)
    then have "handleWebViewMessage P raw st =
        Inr (st\<lparr>console := console st @ [''Unknown message type:'']\<rparr>)"
      by (simp add: handleWebViewMessage_def consoleLog_def)
    then show ?thesis by blast
  qed
qed

lemma envelope_not_null:
  assumes "getProp message ''type'' = Some t"
  shows "message \<noteq> JNull"
  using assms by auto

lemma body_of_envelope:
  assumes "jsonParse P raw = Some message" and "getProp message ''type'' = Some (JStr t)"
  shows "handleMessageBody P raw st =
     (let type = Some (JStr t); payload = getProp message ''payload''
      in if type = Some (JStr ''AUTH_TOKEN'') then
                (case optChain payload ''token'' of
                   None \<Rightarrow> Inr st
                 | Some token \<Rightarrow>
                     if truthy (Some token) then
                       (case secureStorage_setAuthToken P token st of
                          Inl e \<Rightarrow> Inl e
                        | Inr st1 \<Rightarrow>
                            (let st2 = st1\<lparr>authToken := Some token\<rparr>
                             in case appStorage_getPushToken P st2 of (pushToken, st3) \<Rightarrow>
                                  (case pushToken of
                                     None \<Rightarrow> Inr st3
                                   | Some pt \<Rightarrow>
                                       if pt \<noteq> [] then Inr (snd (sendPushTokenToServer P pt st3))
                                       else Inr st3)))
                     else Inr st)
              else if type = Some (JStr ''LOGOUT'') then
                Inr ((appStorage_clearAll P (secureStorage_clearAll P st))\<lparr>authToken := None\<rparr>)
              else if type = Some (JStr ''SHARE'') then
                (if truthy (optChain payload ''url'') \<or> truthy (optChain payload ''text'')
                 then Inr (consoleLog ''Share requested:'' st)
                 else Inr st)
              else if type = Some (JStr ''OPEN_EXTERNAL'') then
                (case optChain payload ''url'' of
                   None \<Rightarrow> Inr st
                 | Some url \<Rightarrow>
                     if truthy (Some url) then Inr (st\<lparr>openedURLs := openedURLs st @ [url]\<rparr>)
                     else Inr st)
              else if type = Some (JStr ''NAVIGATE'') then
                (case optChain payload ''url'' of
                   None \<Rightarrow> Inr st
                 | Some url \<Rightarrow>
                     if truthy (Some url) \<and> webViewRef st
                     then Inr (st\<lparr>injectedScripts :=
                                 injectedScripts st @ [navigateScript (templateString P url)]\<rparr>)
                     else Inr st)
              else Inr (consoleLog ''Unknown message type:'' st))"
  using assms by (cases message) (simp_all add: handleMessageBody_def Let_def)

lemma logout_result:
  assumes "jsonParse P raw = Some message" and "getProp message ''type'' = Some (JStr ''LOGOUT'')"
  shows "handleWebViewMessage P raw st =
     Inr ((appStorage_clearAll P (secureStorage_clearAll P st))\<lparr>authToken := None\<rparr>)"
  by (simp add: handleWebViewMessage_def body_of_envelope [OF assms])

lemma share_result:
  assumes "jsonParse P raw = Some message" and "getProp message ''type'' = Some (JStr ''SHARE'')"
  shows "handleWebViewMessage P raw st =
     Inr (if truthy (optChain (getProp message ''payload'') ''url'') \<or>
             truthy (optChain (getProp message ''payload'') ''text'')
          then consoleLog ''Share requested:'' st else st)"
  by (simp add: handleWebViewMessage_def body_of_envelope [OF assms])

lemma secure_clearAll_auth:
  "\<not> secureDeleteFails P AUTH_TOKEN_KEY \<Longrightarrow>
   secureStore (secureStorage_clearAll P st) AUTH_TOKEN_KEY = None"
  by (simp add: secureStorage_clearAll_def consoleLog_def Let_def)

lemma secure_clearAll_refresh:
  "\<not> secureDeleteFails P REFRESH_TOKEN_KEY \<Longrightarrow>
   secureStore (secureStorage_clearAll P st) REFRESH_TOKEN_KEY = None"
  by (simp add: secureStorage_clearAll_def consoleLog_def Let_def)

lemma secure_clearAll_async: "asyncStorage (secureStorage_clearAll P st) = asyncStorage st"
  by (simp add: secureStorage_clearAll_def consoleLog_def Let_def)

lemma app_clearAll_secure: "secureStore (appStorage_clearAll P st) = secureStore st"
  by (simp add: appStorage_clearAll_def consoleLog_def)

lemma app_clearAll_keys:
  "\<not> asyncMultiRemoveFails P [USER_DATA_KEY, PUSH_TOKEN_KEY] \<Longrightarrow>
   asyncStorage (appStorage_clearAll P st) USER_DATA_KEY = None \<and>
   asyncStorage (appStorage_clearAll P st) PUSH_TOKEN_KEY = None"
  by (simp add: appStorage_clearAll_def)

text \<open>
  C6: dispatching a LOGOUT envelope always returns, with the in-memory token mirror set
  to \<open>null\<close>; every deletion the stores do not reject takes effect whatever happens
  to the others: the auth token and the refresh token leave the secure store, the user
  data and the push token leave the general store. A rejected deletion in one store
  prevents neither the clearing of the other store nor that of the mirror.
\<close>

theorem logout_clears_each_store:
  assumes "jsonParse P raw = Some message"
    and "getProp message ''type'' = Some (JStr ''LOGOUT'')"
  shows "\<exists>st'. handleWebViewMessage P raw st = Inr st' \<and>
           authToken st' = None \<and>
           (\<not> secureDeleteFails P AUTH_TOKEN_KEY \<longrightarrow> secureStore st' AUTH_TOKEN_KEY = None) \<and>
           (\<not> secureDeleteFails P REFRESH_TOKEN_KEY \<longrightarrow>
              secureStore st' REFRESH_TOKEN_KEY = None) \<and>
           (\<not> asyncMultiRemoveFails P [USER_DATA_KEY, PUSH_TOKEN_KEY] \<longrightarrow>
              asyncStorage st' USER_DATA_KEY = None \<and> asyncStorage st' PUSH_TOKEN_KEY = None)"
  using logout_result [OF assms, of st]
  by (simp add: app_clearAll_secure secure_clearAll_auth secure_clearAll_refresh
      app_clearAll_keys)


lemma sample_parse_simps:
  "jsonParse samplePlatform ''not json'' = None"
  "jsonParse samplePlatform ''{\"type\":\"LOGOUT\"}'' = Some (JObj [(''type'', JStr ''LOGOUT'')])"
  "jsonParse rejectingPlatform ''{\"type\":\"LOGOUT\"}'' = Some (JObj [(''type'', JStr ''LOGOUT'')])"
  "jsonParse samplePlatform ''{\"type\":\"PING\"}'' = Some (JObj [(''type'', JStr ''PING'')])"
  "jsonParse samplePlatform ''{\"type\":\"AUTH_TOKEN\"}'' = Some (JObj [(''type'', JStr ''AUTH_TOKEN'')])"
  "jsonParse samplePlatform ''{\"type\":\"AUTH_TOKEN\",\"payload\":{\"token\":\"abc\"}}''
     = Some (JObj [(''type'', JStr ''AUTH_TOKEN''), (''payload'', JObj [(''token'', JStr ''abc'')])])"
  "jsonParse samplePlatform ''{\"type\":\"SHARE\",\"payload\":{\"url\":\"https://trustbuild.uk/jobs/1\"}}''
     = Some (JObj [(''type'', JStr ''SHARE''),
                   (''payload'', JObj [(''url'', JStr ''https://trustbuild.uk/jobs/1'')])])"
  "jsonParse samplePlatform ''{\"type\":\"SHARE\",\"payload\":{}}''
     = Some (JObj [(''type'', JStr ''SHARE''), (''payload'', JObj [])])"
  "jsonParse samplePlatform ''{\"type\":\"NAVIGATE\",\"payload\":{\"url\":\"/jobs/1\"}}''
     = Some (JObj [(''type'', JStr ''NAVIGATE''), (''payload'', JObj [(''url'', JStr ''/jobs/1'')])])"
  by (simp_all add: samplePlatform_def rejectingPlatform_def sampleParse_def)

theorem logout_clears_each_store_witness:
  "jsonParse samplePlatform ''{\"type\":\"LOGOUT\"}'' = Some (JObj [(''type'', JStr ''LOGOUT'')]) \<and>
   getProp (JObj [(''type'', JStr ''LOGOUT'')]) ''type'' = Some (JStr ''LOGOUT'') \<and>
   \<not> secureDeleteFails samplePlatform AUTH_TOKEN_KEY \<and>
   \<not> secureDeleteFails samplePlatform REFRESH_TOKEN_KEY \<and>
   \<not> asyncMultiRemoveFails samplePlatform [USER_DATA_KEY, PUSH_TOKEN_KEY] \<and>
   (\<exists>st'. handleWebViewMessage samplePlatform ''{\"type\":\"LOGOUT\"}'' signedIn = Inr st' \<and>
      authToken st' = None \<and>
      secureStore st' AUTH_TOKEN_KEY = None \<and> secureStore st' REFRESH_TOKEN_KEY = None \<and>
      asyncStorage st' USER_DATA_KEY = None \<and> asyncStorage st' PUSH_TOKEN_KEY = None) \<and>
   secureDeleteFails rejectingPlatform AUTH_TOKEN_KEY \<and>
   (\<exists>st'. handleWebViewMessage rejectingPlatform ''{\"type\":\"LOGOUT\"}'' signedIn = Inr st' \<and>
      authToken st' = None \<and> secureStore st' REFRESH_TOKEN_KEY = None \<and>
      asyncStorage st' USER_DATA_KEY = None \<and> asyncStorage st' PUSH_TOKEN_KEY = None)"
proof -
  have ok: "\<not> secureDeleteFails samplePlatform AUTH_TOKEN_KEY"
      "\<not> secureDeleteFails samplePlatform REFRESH_TOKEN_KEY"
      "\<not> asyncMultiRemoveFails samplePlatform [USER_DATA_KEY, PUSH_TOKEN_KEY]"
    by (simp_all add: samplePlatform_def)
  have rej: "secureDeleteFails rejectingPlatform AUTH_TOKEN_KEY"
      "\<not> secureDeleteFails rejectingPlatform REFRESH_TOKEN_KEY"
      "\<not> asyncMultiRemoveFails rejectingPlatform [USER_DATA_KEY, PUSH_TOKEN_KEY]"
    by (simp_all add: rejectingPlatform_def samplePlatform_def AUTH_TOKEN_KEY_def
        REFRESH_TOKEN_KEY_def)
  have ty: "getProp (JObj [(''type'', JStr ''LOGOUT'')]) ''type'' = Some (JStr ''LOGOUT'')"
    by simp
  show ?thesis
    using logout_clears_each_store [OF sample_parse_simps(2) ty, of signedIn]
      logout_clears_each_store [OF sample_parse_simps(3) ty, of signedIn]
      ok rej sample_parse_simps(2) ty
    by simp
qed

text \<open>
  C5: for every raw message the handler returns normally (nothing is thrown to the
  caller). When the text does not parse, or parses to something that is not an envelope
  of one of the five known kinds, the only effect is one console message: both stores,
  the token mirror, the \<open>openURL\<close> calls and the injected scripts are as before.
\<close>

theorem dispatch_discards_unknown:
  "(\<exists>st'. handleWebViewMessage P raw st = Inr st') \<and>
   (\<not> isKnownEnvelope P raw \<longrightarrow>
      (\<exists>msg. handleWebViewMessage P raw st = Inr (st\<lparr>console := console st @ [msg]\<rparr>)))"
  using handler_returns [of P raw st] unknown_logged [of P raw st] by blast

theorem dispatch_discards_unknown_witness:
  "\<not> isKnownEnvelope samplePlatform ''not json'' \<and>
   (\<exists>msg. handleWebViewMessage samplePlatform ''not json'' signedIn
      = Inr (signedIn\<lparr>console := console signedIn @ [msg]\<rparr>)) \<and>
   \<not> isKnownEnvelope samplePlatform ''{\"type\":\"PING\"}'' \<and>
   (\<exists>msg. handleWebViewMessage samplePlatform ''{\"type\":\"PING\"}'' signedIn
      = Inr (signedIn\<lparr>console := console signedIn @ [msg]\<rparr>))"
proof -
  have 1: "\<not> isKnownEnvelope samplePlatform ''not json''"
    by (simp add: isKnownEnvelope_def sample_parse_simps)
  have 2: "\<not> isKnownEnvelope samplePlatform ''{\"type\":\"PING\"}''"
    by (simp add: isKnownEnvelope_def sample_parse_simps knownTypes_def)
  show ?thesis
    using dispatch_discards_unknown [of samplePlatform "''not json''" signedIn]
      dispatch_discards_unknown [of samplePlatform "''{\"type\":\"PING\"}''" signedIn] 1 2
    by blast
qed

text \<open>
  C7, as stated, fails: a SHARE envelope that carries a \<open>url\<close> reaches no sharing
  facility. The handler writes one console message and nothing else.
\<close>

theorem share_not_forwarded_counterexample:
  "handleWebViewMessage samplePlatform
     ''{\"type\":\"SHARE\",\"payload\":{\"url\":\"https://trustbuild.uk/jobs/1\"}}'' signedIn
     = Inr (signedIn\<lparr>console := [''Share requested:'']\<rparr>) \<and>
   shareCalls (signedIn\<lparr>console := [''Share requested:'']\<rparr>) = []"
  by (simp add: handleWebViewMessage_def handleMessageBody_def sample_parse_simps Let_def
      consoleLog_def signedIn_def)

text \<open>
  C7, amended: dispatching a SHARE envelope whose payload has a truthy \<open>url\<close> or
  \<open>text\<close> writes the console message \<open>Share requested:\<close> and has no other effect
  (the host's sharing facility is not invoked); with neither field the dispatch changes
  nothing.
\<close>

theorem share_only_logs:
  assumes "jsonParse P raw = Some message"
    and "getProp message ''type'' = Some (JStr ''SHARE'')"
  shows "handleWebViewMessage P raw st =
     Inr (if truthy (optChain (getProp message ''payload'') ''url'') \<or>
             truthy (optChain (getProp message ''payload'') ''text'')
          then st\<lparr>console := console st @ [''Share requested:'']\<rparr> else st)"
  using share_result [OF assms, of st] by (simp add: consoleLog_def)

theorem share_only_logs_witness:
  "jsonParse samplePlatform ''{\"type\":\"SHARE\",\"payload\":{}}''
     = Some (JObj [(''type'', JStr ''SHARE''), (''payload'', JObj [])]) \<and>
   getProp (JObj [(''type'', JStr ''SHARE''), (''payload'', JObj [])]) ''type''
     = Some (JStr ''SHARE'') \<and>
   handleWebViewMessage samplePlatform ''{\"type\":\"SHARE\",\"payload\":{}}'' signedIn
     = Inr signedIn"
proof -
  have ty: "getProp (JObj [(''type'', JStr ''SHARE''), (''payload'', JObj [])]) ''type''
     = Some (JStr ''SHARE'')"
    by simp
  show ?thesis
    using share_only_logs [OF sample_parse_simps(8) ty, of signedIn] sample_parse_simps(8)
    by simp
qed


section \<open>Properties of the bridge script\<close>

lemma setItem_layer:
  "setItem (injectedJavaScript H b) key value pg =
     setItem b key value
       (if key = ''auth_token''
        then sendMessage ''AUTH_TOKEN'' (JObj [(''token'', JStr value)]) pg else pg)"
  by (simp add: injectedJavaScript_def Let_def)

lemma removeItem_layer:
  "removeItem (injectedJavaScript H b) key pg =
     removeItem b key
       (if key = ''auth_token'' then sendMessage ''LOGOUT'' (JObj []) pg else pg)"
  by (simp add: injectedJavaScript_def Let_def)

lemma setItem_layers:
  "setItem ((injectedJavaScript H ^^ n) browser) ''auth_token'' value pg =
     pg\<lparr>localStorage := (localStorage pg)(''auth_token'' \<mapsto> value),
        posted := posted pg @
          replicate n (Envelope ''AUTH_TOKEN'' (JObj [(''token'', JStr value)]))\<rparr>"
proof (induction n arbitrary: pg)
  case 0
  show ?case by (simp add: browser_def fun_upd_def)
next
  case (Suc n)
  show ?case
    by (simp add: setItem_layer Suc.IH sendMessage_def replicate_app_Cons_same)
qed

lemma removeItem_layers:
  "removeItem ((injectedJavaScript H ^^ n) browser) ''auth_token'' pg =
     pg\<lparr>localStorage := (localStorage pg)(''auth_token'' := None),
        posted := posted pg @ replicate n (Envelope ''LOGOUT'' (JObj []))\<rparr>"
proof (induction n arbitrary: pg)
  case 0
  show ?case by (simp add: browser_def fun_upd_def)
next
  case (Suc n)
  show ?case
    by (simp add: removeItem_layer Suc.IH sendMessage_def replicate_app_Cons_same)
qed

text \<open>
  C8, as stated, fails: after two executions of the script in one page, one write of
  \<open>auth_token\<close> forwards two AUTH_TOKEN envelopes and one removal forwards two LOGOUT
  envelopes.
\<close>

theorem rewrapping_adds_layer_counterexample:
  "posted (setItem (injectedJavaScript noUrl (injectedJavaScript noUrl browser))
             ''auth_token'' ''abc'' freshPage)
     = [Envelope ''AUTH_TOKEN'' (JObj [(''token'', JStr ''abc'')]),
        Envelope ''AUTH_TOKEN'' (JObj [(''token'', JStr ''abc'')])] \<and>
   posted (removeItem (injectedJavaScript noUrl (injectedJavaScript noUrl browser))
             ''auth_token'' freshPage)
     = [Envelope ''LOGOUT'' (JObj []), Envelope ''LOGOUT'' (JObj [])]"
  by (simp add: setItem_layer removeItem_layer browser_def sendMessage_def freshPage_def)

text \<open>
  C8, amended: every execution of the script adds one forwarding layer to
  \<open>localStorage.setItem\<close> and \<open>localStorage.removeItem\<close>. After \<open>n\<close> executions in
  one page, a write of \<open>auth_token\<close> forwards \<open>n\<close> AUTH_TOKEN envelopes and a removal
  forwards \<open>n\<close> LOGOUT envelopes (exactly one when the script has run once), and the
  underlying storage operation is performed once. For \<open>window.open\<close> with a non-empty
  URL the outermost layer alone acts, so further executions change nothing.
\<close>

theorem one_layer_per_execution:
  "posted (setItem ((injectedJavaScript H ^^ n) browser) ''auth_token'' value pg)
     = posted pg @ replicate n (Envelope ''AUTH_TOKEN'' (JObj [(''token'', JStr value)])) \<and>
   localStorage (setItem ((injectedJavaScript H ^^ n) browser) ''auth_token'' value pg)
     = (localStorage pg)(''auth_token'' \<mapsto> value) \<and>
   posted (removeItem ((injectedJavaScript H ^^ n) browser) ''auth_token'' pg)
     = posted pg @ replicate n (Envelope ''LOGOUT'' (JObj [])) \<and>
   localStorage (removeItem ((injectedJavaScript H ^^ n) browser) ''auth_token'' pg)
     = (localStorage pg)(''auth_token'' := None) \<and>
   (url \<noteq> [] \<longrightarrow>
      windowOpen ((injectedJavaScript H ^^ Suc n) browser) url pg
        = windowOpen (injectedJavaScript H browser) url pg)"
  by (simp add: setItem_layers removeItem_layers injectedJavaScript_def Let_def)

theorem one_layer_per_execution_witness:
  "''https://twitter.com/share'' \<noteq> [] \<and>
   windowOpen ((injectedJavaScript noUrl ^^ Suc 1) browser) ''https://twitter.com/share'' freshPage
     = windowOpen (injectedJavaScript noUrl browser) ''https://twitter.com/share'' freshPage \<and>
   posted (windowOpen (injectedJavaScript noUrl browser) ''https://twitter.com/share'' freshPage)
     = [Envelope ''OPEN_EXTERNAL'' (JObj [(''url'', JStr ''https://twitter.com/share'')])]"
proof -
  have "posted (windowOpen (injectedJavaScript noUrl browser) ''https://twitter.com/share''
      freshPage) = [Envelope ''OPEN_EXTERNAL'' (JObj [(''url'', JStr ''https://twitter.com/share'')])]"
    by (simp add: injectedJavaScript_def Let_def noUrl_def openExternal_def sendMessage_def
        freshPage_def)
  then show ?thesis
    using one_layer_per_execution [where H = noUrl and n = 1 and pg = freshPage
        and url = "''https://twitter.com/share''"]
    by simp
qed

section \<open>Properties of the generated scripts\<close>

lemma stringLiteral_plain:
  "plainForLiteral t \<Longrightarrow> stringLiteral (t @ CHR 0x27 # rest) = Some (t, rest)"
  by (induction t) (simp_all add: plainForLiteral_def)

lemma injectedTokenValue_plain:
  "plainForLiteral t \<Longrightarrow> injectedTokenValue (loadEndScript t) = Some t"
  by (simp add: injectedTokenValue_def loadEndScript_def loadEndSuffix_def stringLiteral_plain)

lemma navigationTarget_plain:
  "plainForLiteral u \<Longrightarrow> navigationTarget (navigateScript u) = Some u"
  by (simp add: navigationTarget_def navigateScript_def navigateSuffix_def stringLiteral_plain)

text \<open>
  C9, as stated, fails: the dynamic value is inserted between single quotes without
  escaping. For the token \<open>x\y\<close> the generated script is well formed and stores
  \<open>xy\<close>. A quote ends the literal early: for the token \<open>a'b\<close> the literal is
  \<open>a\<close> and the rest of the token is read as program text, and likewise for a URL
  with a quote in it.
\<close>

theorem interpolation_unescaped_counterexample:
  "injectedTokenValue (loadEndScript (''x'' @ [CHR 0x5C] @ ''y'')) = Some ''xy'' \<and>
   injectedTokenValue (loadEndScript (''x'' @ [CHR 0x5C] @ ''y'')) \<noteq> Some (''x'' @ [CHR 0x5C] @ ''y'') \<and>
   stringLiteral (drop (length loadEndPrefix) (loadEndScript ''a'b''))
     = Some (''a'', ''b'' @ loadEndSuffix) \<and>
   injectedTokenValue (loadEndScript ''a'b'') \<noteq> Some ''a'b'' \<and>
   navigationTarget (navigateScript ''/jobs?q=a'b'') \<noteq> Some ''/jobs?q=a'b''"
  by (simp add: injectedTokenValue_def loadEndScript_def navigationTarget_def
      navigateScript_def loadEndSuffix_def navigateSuffix_def escapeChar_def)

lemma handleLoadEnd_string:
  assumes "authToken st = Some (JStr v)" and "v \<noteq> []" and "webViewRef st"
  shows "injectedScripts (handleLoadEnd P st) = injectedScripts st @ [loadEndScript v]"
  using assms by (simp add: handleLoadEnd_def templateString_def)

lemma navigate_string:
  assumes "jsonParse P raw = Some message"
    and "getProp message ''type'' = Some (JStr ''NAVIGATE'')"
    and "optChain (getProp message ''payload'') ''url'' = Some (JStr v)"
    and "v \<noteq> []" and "webViewRef st"
  shows "handleWebViewMessage P raw st =
     Inr (st\<lparr>injectedScripts := injectedScripts st @ [navigateScript v]\<rparr>)"
  using assms(3-5)
  by (simp add: handleWebViewMessage_def body_of_envelope [OF assms(1,2)] templateString_def)

text \<open>
  C9, amended: a dynamic value that contains no single quote, backslash or line
  terminator reaches the page exactly. For such a non-empty token in the mirror, the
  script \<open>handleLoadEnd\<close> injects stores exactly that token under \<open>auth_token\<close>; for
  such a non-empty \<open>url\<close> in a NAVIGATE payload, the injected script assigns exactly
  that URL to \<open>window.location.href\<close>. Other values are interpolated as they are, without
  escaping.
\<close>

theorem plain_values_injected_exactly:
  assumes "plainForLiteral v" and "v \<noteq> []" and "webViewRef st"
  shows "(authToken st = Some (JStr v) \<longrightarrow>
            (\<exists>script. injectedScripts (handleLoadEnd P st) = injectedScripts st @ [script] \<and>
                      injectedTokenValue script = Some v)) \<and>
         (jsonParse P raw = Some message \<and>
          getProp message ''type'' = Some (JStr ''NAVIGATE'') \<and>
          optChain (getProp message ''payload'') ''url'' = Some (JStr v) \<longrightarrow>
            (\<exists>st' script. handleWebViewMessage P raw st = Inr st' \<and>
                          injectedScripts st' = injectedScripts st @ [script] \<and>
                          navigationTarget script = Some v))"
proof (intro conjI impI)
  assume "authToken st = Some (JStr v)"
  then have "injectedScripts (handleLoadEnd P st) = injectedScripts st @ [loadEndScript v]"
    using assms(2,3) by (rule handleLoadEnd_string)
  then show "\<exists>script. injectedScripts (handleLoadEnd P st) = injectedScripts st @ [script] \<and>
      injectedTokenValue script = Some v"
    using injectedTokenValue_plain [OF assms(1)] by blast
next
  assume a: "jsonParse P raw = Some message \<and>
      getProp message ''type'' = Some (JStr ''NAVIGATE'') \<and>
      optChain (getProp message ''payload'') ''url'' = Some (JStr v)"
  then have "handleWebViewMessage P raw st =
      Inr (st\<lparr>injectedScripts := injectedScripts st @ [navigateScript v]\<rparr>)"
    using navigate_string [of P raw message v st] assms(2,3) by blast
  then show "\<exists>st' script. handleWebViewMessage P raw st = Inr st' \<and>
      injectedScripts st' = injectedScripts st @ [script] \<and> navigationTarget script = Some v"
    using navigationTarget_plain [OF assms(1)] by simp
qed

theorem plain_values_injected_exactly_witness:
  "plainForLiteral ''abc'' \<and> ''abc'' \<noteq> [] \<and> webViewRef signedIn \<and>
   authToken signedIn = Some (JStr ''abc'') \<and>
   (\<exists>script. injectedScripts (handleLoadEnd samplePlatform signedIn)
                = injectedScripts signedIn @ [script] \<and>
             injectedTokenValue script = Some ''abc'') \<and>
   plainForLiteral ''/jobs/1'' \<and> ''/jobs/1'' \<noteq> [] \<and>
   jsonParse samplePlatform ''{\"type\":\"NAVIGATE\",\"payload\":{\"url\":\"/jobs/1\"}}''
     = Some (JObj [(''type'', JStr ''NAVIGATE''), (''payload'', JObj [(''url'', JStr ''/jobs/1'')])]) \<and>
   (\<exists>st' script.
      handleWebViewMessage samplePlatform
        ''{\"type\":\"NAVIGATE\",\"payload\":{\"url\":\"/jobs/1\"}}'' signedIn = Inr st' \<and>
      injectedScripts st' = injectedScripts signedIn @ [script] \<and>
      navigationTarget script = Some ''/jobs/1'')"
proof -
  have p: "plainForLiteral ''abc''" "plainForLiteral ''/jobs/1''"
    by (simp_all add: plainForLiteral_def)
  have n: "''abc'' \<noteq> []" "''/jobs/1'' \<noteq> []" by simp_all
  have w: "webViewRef signedIn" "authToken signedIn = Some (JStr ''abc'')"
    by (simp_all add: signedIn_def)
  have g: "getProp (JObj [(''type'', JStr ''NAVIGATE''),
        (''payload'', JObj [(''url'', JStr ''/jobs/1'')])]) ''type'' = Some (JStr ''NAVIGATE'')"
    "optChain (getProp (JObj [(''type'', JStr ''NAVIGATE''),
        (''payload'', JObj [(''url'', JStr ''/jobs/1'')])]) ''payload'') ''url''
        = Some (JStr ''/jobs/1'')"
    by simp_all
  show ?thesis
    using plain_values_injected_exactly [OF p(1) n(1) w(1), of samplePlatform
        "''{\"type\":\"NAVIGATE\",\"payload\":{\"url\":\"/jobs/1\"}}''"
        "JObj [(''type'', JStr ''NAVIGATE''), (''payload'', JObj [(''url'', JStr ''/jobs/1'')])]"]
      plain_values_injected_exactly [OF p(2) n(2) w(1), of samplePlatform
        "''{\"type\":\"NAVIGATE\",\"payload\":{\"url\":\"/jobs/1\"}}''"
        "JObj [(''type'', JStr ''NAVIGATE''), (''payload'', JObj [(''url'', JStr ''/jobs/1'')])]"]
      p n w g sample_parse_simps(9)
    by simp
qed

section \<open>The guard of the AUTH_TOKEN case\<close>

lemma sendPush_frame:
  "secureStore (snd (sendPushTokenToServer P pt st)) = secureStore st"
  "authToken (snd (sendPushTokenToServer P pt st)) = authToken st"
  by (simp_all add: sendPushTokenToServer_def secureStorage_getAuthToken_def consoleLog_def
      Let_def split: option.splits response.splits)

lemma auth_result:
  assumes "jsonParse P raw = Some message"
    and "getProp message ''type'' = Some (JStr ''AUTH_TOKEN'')"
  shows "handleWebViewMessage P raw st =
     (case optChain (getProp message ''payload'') ''token'' of
        None \<Rightarrow> Inr st
      | Some token \<Rightarrow>
          if \<not> truthy (Some token) then Inr st
          else if secureSetFails P AUTH_TOKEN_KEY token
          then Inr (st\<lparr>console := console st @
                 [''Failed to save auth token:'', ''Failed to parse WebView message:'']\<rparr>)
          else
            (let st2 = st\<lparr>secureStore := (secureStore st)(AUTH_TOKEN_KEY \<mapsto> token),
                          authToken := Some token\<rparr>
             in case appStorage_getPushToken P st2 of (pushToken, st3) \<Rightarrow>
                  (case pushToken of
                     None \<Rightarrow> Inr st3
                   | Some pt \<Rightarrow>
                       if pt \<noteq> [] then Inr (snd (sendPushTokenToServer P pt st3))
                       else Inr st3)))"
  by (simp add: handleWebViewMessage_def body_of_envelope [OF assms]
      secureStorage_setAuthToken_def consoleLog_def Let_def
      split: option.splits prod.splits)

text \<open>
  C10: dispatching an AUTH_TOKEN envelope whose payload is absent, or whose \<open>token\<close> is
  absent or falsy, changes nothing at all. With a secure store that accepts only strings
  (the declared interface of \<open>setAuthToken\<close> and \<open>SecureStore.setItemAsync\<close>), a
  payload whose \<open>token\<close> is not a non-empty string leaves the secure store, the mirror
  and the push registrations as they were, the only trace being console messages; so the
  three effects occur only for a non-empty string. For a non-empty string that the store
  accepts, the token is written to the secure store and to the mirror.
\<close>

theorem auth_token_guard:
  assumes "jsonParse P raw = Some message"
    and "getProp message ''type'' = Some (JStr ''AUTH_TOKEN'')"
  shows "(\<not> truthy (optChain (getProp message ''payload'') ''token'') \<longrightarrow>
            handleWebViewMessage P raw st = Inr st) \<and>
         ((\<forall>v. (\<forall>s. v \<noteq> JStr s) \<longrightarrow> secureSetFails P AUTH_TOKEN_KEY v) \<and>
          (\<forall>s. optChain (getProp message ''payload'') ''token'' = Some (JStr s) \<longrightarrow> s = []) \<longrightarrow>
            (\<exists>msgs. handleWebViewMessage P raw st = Inr (st\<lparr>console := console st @ msgs\<rparr>))) \<and>
         (\<forall>s. optChain (getProp message ''payload'') ''token'' = Some (JStr s) \<and> s \<noteq> [] \<and>
              \<not> secureSetFails P AUTH_TOKEN_KEY (JStr s) \<longrightarrow>
            (\<exists>st'. handleWebViewMessage P raw st = Inr st' \<and>
                   secureStore st' = (secureStore st)(AUTH_TOKEN_KEY \<mapsto> JStr s) \<and>
                   authToken st' = Some (JStr s)))"
proof (intro conjI impI allI)
  assume "\<not> truthy (optChain (getProp message ''payload'') ''token'')"
  then show "handleWebViewMessage P raw st = Inr st"
    by (cases "optChain (getProp message ''payload'') ''token''")
      (simp_all add: auth_result [OF assms])
next
  assume h: "(\<forall>v. (\<forall>s. v \<noteq> JStr s) \<longrightarrow> secureSetFails P AUTH_TOKEN_KEY v) \<and>
      (\<forall>s. optChain (getProp message ''payload'') ''token'' = Some (JStr s) \<longrightarrow> s = [])"
  show "\<exists>msgs. handleWebViewMessage P raw st = Inr (st\<lparr>console := console st @ msgs\<rparr>)"
  proof (cases "truthy (optChain (getProp message ''payload'') ''token'')")
    case False
    then have "handleWebViewMessage P raw st = Inr (st\<lparr>console := console st @ []\<rparr>)"
      by (cases "optChain (getProp message ''payload'') ''token''")
        (simp_all add: auth_result [OF assms])
    then show ?thesis by blast
  next
    case True
    then obtain token where t: "optChain (getProp message ''payload'') ''token'' = Some token"
      by (cases "optChain (getProp message ''payload'') ''token''") auto
    with True h have "\<forall>s. token \<noteq> JStr s" by auto
    with h have "secureSetFails P AUTH_TOKEN_KEY token" by blast
    with True t have "handleWebViewMessage P raw st = Inr (st\<lparr>console := console st @
        [''Failed to save auth token:'', ''Failed to parse WebView message:'']\<rparr>)"
      by (simp add: auth_result [OF assms])
    then show ?thesis by blast
  qed
next
  fix s
  assume a: "optChain (getProp message ''payload'') ''token'' = Some (JStr s) \<and> s \<noteq> [] \<and>
      \<not> secureSetFails P AUTH_TOKEN_KEY (JStr s)"
  show "\<exists>st'. handleWebViewMessage P raw st = Inr st' \<and>
      secureStore st' = (secureStore st)(AUTH_TOKEN_KEY \<mapsto> JStr s) \<and> authToken st' = Some (JStr s)"
    using a
    by (auto simp: auth_result [OF assms] appStorage_getPushToken_def consoleLog_def
        sendPush_frame Let_def split: option.splits)
qed

theorem auth_token_guard_witness:
  "jsonParse samplePlatform ''{\"type\":\"AUTH_TOKEN\"}'' = Some (JObj [(''type'', JStr ''AUTH_TOKEN'')]) \<and>
   \<not> truthy (optChain (getProp (JObj [(''type'', JStr ''AUTH_TOKEN'')]) ''payload'') ''token'') \<and>
   secureSetFails samplePlatform AUTH_TOKEN_KEY (JNum 123) \<and>
   handleWebViewMessage samplePlatform ''{\"type\":\"AUTH_TOKEN\"}'' signedIn = Inr signedIn \<and>
   (\<exists>msgs. handleWebViewMessage samplePlatform ''{\"type\":\"AUTH_TOKEN\"}'' signedIn
      = Inr (signedIn\<lparr>console := console signedIn @ msgs\<rparr>)) \<and>
   \<not> secureSetFails samplePlatform AUTH_TOKEN_KEY (JStr ''abc'') \<and>
   (\<exists>st'. handleWebViewMessage samplePlatform
             ''{\"type\":\"AUTH_TOKEN\",\"payload\":{\"token\":\"abc\"}}'' signedIn = Inr st' \<and>
          secureStore st' = (secureStore signedIn)(AUTH_TOKEN_KEY \<mapsto> JStr ''abc'') \<and>
          authToken st' = Some (JStr ''abc''))"
proof -
  have ty: "getProp (JObj [(''type'', JStr ''AUTH_TOKEN'')]) ''type'' = Some (JStr ''AUTH_TOKEN'')"
    "getProp (JObj [(''type'', JStr ''AUTH_TOKEN''),
        (''payload'', JObj [(''token'', JStr ''abc'')])]) ''type'' = Some (JStr ''AUTH_TOKEN'')"
    by simp_all
  have tok: "optChain (getProp (JObj [(''type'', JStr ''AUTH_TOKEN'')]) ''payload'') ''token'' = None"
    "optChain (getProp (JObj [(''type'', JStr ''AUTH_TOKEN''),
        (''payload'', JObj [(''token'', JStr ''abc'')])]) ''payload'') ''token'' = Some (JStr ''abc'')"
    by simp_all
  have rej: "\<forall>v. (\<forall>s. v \<noteq> JStr s) \<longrightarrow> secureSetFails samplePlatform AUTH_TOKEN_KEY v"
  proof (intro allI impI)
    fix v assume "\<forall>s. v \<noteq> JStr s"
    then show "secureSetFails samplePlatform AUTH_TOKEN_KEY v"
      by (cases v) (simp_all add: samplePlatform_def)
  qed
  have num: "secureSetFails samplePlatform AUTH_TOKEN_KEY (JNum 123)"
    by (simp add: samplePlatform_def)
  have acc: "\<not> secureSetFails samplePlatform AUTH_TOKEN_KEY (JStr ''abc'')"
    by (simp add: samplePlatform_def)
  note absent = auth_token_guard [OF sample_parse_simps(5) ty(1), of signedIn]
  note present = auth_token_guard [OF sample_parse_simps(6) ty(2), of signedIn]
  have 1: "handleWebViewMessage samplePlatform ''{\"type\":\"AUTH_TOKEN\"}'' signedIn = Inr signedIn"
    using absent tok(1) by simp
  have 2: "\<exists>msgs. handleWebViewMessage samplePlatform ''{\"type\":\"AUTH_TOKEN\"}'' signedIn
      = Inr (signedIn\<lparr>console := console signedIn @ msgs\<rparr>)"
  proof -
    have none: "\<forall>s. optChain (getProp (JObj [(''type'', JStr ''AUTH_TOKEN'')]) ''payload'') ''token''
        = Some (JStr s) \<longrightarrow> s = []"
      by simp
    from absent rej none show ?thesis by blast
  qed
  have 3: "\<exists>st'. handleWebViewMessage samplePlatform
       ''{\"type\":\"AUTH_TOKEN\",\"payload\":{\"token\":\"abc\"}}'' signedIn = Inr st' \<and>
       secureStore st' = (secureStore signedIn)(AUTH_TOKEN_KEY \<mapsto> JStr ''abc'') \<and>
       authToken st' = Some (JStr ''abc'')"
    using present tok(2) acc by simp
  from 1 2 3 num acc tok(1) sample_parse_simps(5) show ?thesis by simp
qed


end
